theory Spec2Isabelle
  imports Complex_Main "HOL-Library.Multiset"
begin

section \<open>JavaScript values\<close>

text \<open>
  The news controller (\<^verbatim>\<open>controllers/newsController.js\<close>) works on values parsed from
  JSON by the HTTP client, on the static tables of the module and on the query strings of
  the request. A value is modelled structurally. Numbers are the finite doubles (as
  reals), \<open>NaN\<close> and the two infinities. An object is the list of its own properties in
  insertion order (names are unique in a parsed object); a built-in function is named.
\<close>

datatype jsnum = Finite real | NaN | PosInf | NegInf

datatype jsval =
    JUndefined
  | JNull
  | JBool bool
  | JNum jsnum
  | JStr string
  | JArr "jsval list"
  | JObj "(string \<times> jsval) list"
  | JFun string

type_synonym obj = "(string \<times> jsval) list"

datatype js_error =
    TypeError string
  | AxiosError string
  | InternalError string

text \<open>\<^verbatim>\<open>Boolean(v)\<close>: the falsy values are undefined, null, false, 0, NaN and ''.\<close>

fun truthy :: "jsval \<Rightarrow> bool" where
  "truthy JUndefined = False"
| "truthy JNull = False"
| "truthy (JBool b) = b"
| "truthy (JNum n) = (n \<noteq> Finite 0 \<and> n \<noteq> NaN)"
| "truthy (JStr s) = (s \<noteq> [])"
| "truthy (JArr xs) = True"
| "truthy (JObj kvs) = True"
| "truthy (JFun f) = True"

text \<open>\<^verbatim>\<open>a || b\<close> on values whose evaluation has no effect.\<close>

definition js_or :: "jsval \<Rightarrow> jsval \<Rightarrow> jsval" where
  "js_or a b = (if truthy a then a else b)"

definition nullish :: "jsval \<Rightarrow> bool" where
  "nullish v = (v = JUndefined \<or> v = JNull)"

text \<open>
  The properties every plain object inherits from \<^verbatim>\<open>Object.prototype\<close>. The accessor
  \<^verbatim>\<open>__proto__\<close> yields the prototype object itself, which has no enumerable property.
\<close>

definition object_prototype :: "string \<Rightarrow> jsval" where
  "object_prototype k =
     (if k = ''constructor'' then JFun ''Object''
      else if k = ''__proto__'' then JObj []
      else if k \<in> set [''toString'', ''toLocaleString'', ''valueOf'', ''hasOwnProperty'',
                        ''isPrototypeOf'', ''propertyIsEnumerable'', ''__defineGetter__'',
                        ''__defineSetter__'', ''__lookupGetter__'', ''__lookupSetter__'']
      then JFun k
      else JUndefined)"

text \<open>
  \<^verbatim>\<open>v.k\<close> and \<^verbatim>\<open>v[k]\<close> for a receiver that is neither undefined nor null. On an
  object the own properties come first, then the inherited ones. On arrays, strings,
  numbers and booleans the controller only reads the names \<^verbatim>\<open>url\<close>, \<^verbatim>\<open>id\<close>,
  \<^verbatim>\<open>title\<close>, \<^verbatim>\<open>description\<close>, \<^verbatim>\<open>content\<close>, \<^verbatim>\<open>snippet\<close>, \<^verbatim>\<open>image\<close>,
  \<^verbatim>\<open>publishedAt\<close>, \<^verbatim>\<open>source\<close>, \<^verbatim>\<open>name\<close>, \<^verbatim>\<open>category\<close>, \<^verbatim>\<open>webTitle\<close>,
  \<^verbatim>\<open>webUrl\<close>, \<^verbatim>\<open>webPublicationDate\<close>, \<^verbatim>\<open>sectionName\<close>, \<^verbatim>\<open>fields\<close>,
  \<^verbatim>\<open>trailText\<close>, \<^verbatim>\<open>bodyText\<close>, \<^verbatim>\<open>thumbnail\<close>, \<^verbatim>\<open>articles\<close>, \<^verbatim>\<open>response\<close>
  and \<^verbatim>\<open>results\<close>, none of which those values have: the read yields undefined.
  (A function does not occur in a parsed payload.)
\<close>

definition getProp :: "jsval \<Rightarrow> string \<Rightarrow> jsval" where
  "getProp v k =
     (case v of
        JObj kvs \<Rightarrow> (case map_of kvs k of Some x \<Rightarrow> x | None \<Rightarrow> object_prototype k)
      | _ \<Rightarrow> JUndefined)"

text \<open>A property read throws a TypeError on undefined and on null.\<close>

definition js_get :: "jsval \<Rightarrow> string \<Rightarrow> js_error + jsval" where
  "js_get v k =
     (if nullish v then Inl (TypeError ''Cannot read properties of undefined or null'')
      else Inr (getProp v k))"

text \<open>\<^verbatim>\<open>v?.k\<close>: undefined on undefined and null, the property otherwise.\<close>

definition opt_chain :: "jsval \<Rightarrow> string \<Rightarrow> jsval" where
  "opt_chain v k = (if nullish v then JUndefined else getProp v k)"

text \<open>Decimal text of a natural number, as a template literal renders an integer.\<close>

fun show_nat :: "nat \<Rightarrow> string" where
  "show_nat n =
     (if n < 10 then [''0123456789'' ! n]
      else show_nat (n div 10) @ [''0123456789'' ! (n mod 10)])"

declare show_nat.simps [simp del]

definition show_int :: "int \<Rightarrow> string" where
  "show_int i = (if i < 0 then CHR ''-'' # show_nat (nat (- i)) else show_nat (nat i))"

section \<open>Fetch with timeout and retry\<close>

text \<open>
  \<^verbatim>\<open>fetchWithRetry(url, options = {}, retries = 2)\<close>. The network is an oracle: the
  outcome of the attempt with loop index \<open>i\<close> is \<open>attempt i\<close>, the parsed response body or
  the error axios throws (network error, timeout, status outside 2xx). \<open>retries\<close> is a
  count; the only call sites pass the default 2. Besides its result the function leaves a
  trace of what it did: each request with its timeout in milliseconds, and each pause.
\<close>

datatype event =
    Request string nat nat
  | Sleep nat

function fetchLoop ::
  "(nat \<Rightarrow> js_error + jsval) \<Rightarrow> string \<Rightarrow> nat \<Rightarrow> nat \<Rightarrow> (js_error + jsval) \<times> event list"
where
  "fetchLoop attempt url retries i =
     (if i \<le> retries then
        (case attempt i of
           Inr data \<Rightarrow> (Inr data, [Request url i 8000])
         | Inl error \<Rightarrow>
             if i = retries then (Inl error, [Request url i 8000])
             else (let (r, tr) = fetchLoop attempt url retries (Suc i)
                   in (r, Request url i 8000 # Sleep (1000 * (i + 1)) # tr)))
      else (Inr JUndefined, []))"
  by pat_completeness auto
termination
  by (relation "measure (\<lambda>(attempt, url, retries, i). Suc retries - i)") auto

declare fetchLoop.simps [simp del]

definition fetchWithRetry ::
  "(nat \<Rightarrow> js_error + jsval) \<Rightarrow> string \<Rightarrow> nat \<Rightarrow> (js_error + jsval) \<times> event list"
where
  "fetchWithRetry attempt url retries = fetchLoop attempt url retries 0"

fun is_request :: "event \<Rightarrow> bool" where
  "is_request (Request u i t) = True"
| "is_request (Sleep ms) = False"

fun timeout_ms :: "event \<Rightarrow> nat" where
  "timeout_ms (Request u i t) = t"
| "timeout_ms (Sleep ms) = 0"

text \<open>
  The trace of a call whose attempts \<open>0, \<dots>, k - 1\<close> failed and whose attempt \<open>k\<close> ended
  it: after the failure of the attempt with loop index \<open>j\<close>, which is attempt number
  \<open>j + 1\<close>, a pause of \<open>(j + 1) * 1000\<close> milliseconds.
\<close>

definition backoffTrace :: "string \<Rightarrow> nat \<Rightarrow> event list" where
  "backoffTrace url k =
     concat (map (\<lambda>j. [Request url j 8000, Sleep ((j + 1) * 1000)]) [0..<k])
       @ [Request url k 8000]"

section \<open>Normalising provider items\<close>

text \<open>
  \<^verbatim>\<open>normalizeArticle(source, raw)\<close> reads the clock and the random generator when the
  item lacks the field the id or the date comes from. The values read in one call are
  given to the model as a \<open>reading\<close>: \<^verbatim>\<open>Date.now()\<close>, the text a template literal
  renders for \<^verbatim>\<open>Math.random()\<close>, and \<^verbatim>\<open>new Date().toISOString()\<close>.
\<close>

record reading =
  dateNow :: nat
  mathRandom :: string
  isoString :: string

definition placeholderImage :: jsval where
  "placeholderImage = JStr ''https://via.placeholder.com/600x400?text=News''"

text \<open>
  \<^verbatim>\<open>raw.fields?.trailText || raw.fields?.bodyText?.substring(0, 200) || ''\<close>. The call of
  \<^verbatim>\<open>substring\<close> throws a TypeError when \<^verbatim>\<open>bodyText\<close> is neither undefined, null nor
  a string. Lengths are counted in the characters of the model's strings.
\<close>

definition guardianSnippet :: "jsval \<Rightarrow> js_error + jsval" where
  "guardianSnippet raw =
     (let fields = getProp raw ''fields'';
          trailText = opt_chain fields ''trailText''
      in if truthy trailText then Inr trailText
         else (let bodyText = opt_chain fields ''bodyText''
               in if nullish bodyText then Inr (JStr [])
                  else (case bodyText of
                          JStr s \<Rightarrow> Inr (js_or (JStr (take 200 s)) (JStr []))
                        | _ \<Rightarrow> Inl (TypeError ''raw.fields.bodyText.substring is not a function''))))"

text \<open>
  The body of the \<^verbatim>\<open>try\<close> block. In each branch the first expression evaluated reads a
  property of \<open>raw\<close>, which throws when \<open>raw\<close> is undefined or null.
\<close>

definition normalizeArticle_try :: "reading \<Rightarrow> jsval \<Rightarrow> jsval \<Rightarrow> js_error + jsval" where
  "normalizeArticle_try rd source raw =
     (if nullish raw then Inl (TypeError ''Cannot read properties of undefined or null'')
      else if source = JStr ''gnews'' then
        Inr (JObj
          [(''id'', js_or (getProp raw ''url'')
                      (JStr (''gnews_'' @ show_nat (dateNow rd) @ ''_'' @ mathRandom rd))),
           (''title'', js_or (getProp raw ''title'') (JStr ''Untitled'')),
           (''snippet'', js_or (getProp raw ''description'')
                           (js_or (getProp raw ''content'') (JStr []))),
           (''url'', js_or (getProp raw ''url'') (JStr ''#'')),
           (''image'', js_or (getProp raw ''image'') placeholderImage),
           (''publishedAt'', js_or (getProp raw ''publishedAt'') (JStr (isoString rd))),
           (''source'', js_or (opt_chain (getProp raw ''source'') ''name'') (JStr ''GNews'')),
           (''category'', js_or (getProp raw ''category'') (JStr ''general'')),
           (''aiSummary'', JNull)])
      else if source = JStr ''guardian'' then
        (case guardianSnippet raw of
           Inl e \<Rightarrow> Inl e
         | Inr snippet \<Rightarrow>
             Inr (JObj
               [(''id'', js_or (getProp raw ''id'')
                           (JStr (''guardian_'' @ show_nat (dateNow rd) @ ''_'' @ mathRandom rd))),
                (''title'', js_or (getProp raw ''webTitle'') (JStr ''Untitled'')),
                (''snippet'', snippet),
                (''url'', js_or (getProp raw ''webUrl'') (JStr ''#'')),
                (''image'', js_or (opt_chain (getProp raw ''fields'') ''thumbnail'') placeholderImage),
                (''publishedAt'', js_or (getProp raw ''webPublicationDate'') (JStr (isoString rd))),
                (''source'', JStr ''The Guardian''),
                (''category'', js_or (getProp raw ''sectionName'') (JStr ''general'')),
                (''aiSummary'', JNull)]))
      else
        Inr (JObj
          [(''id'', js_or (getProp raw ''url'')
                      (js_or (getProp raw ''id'')
                         (JStr (''news_'' @ show_nat (dateNow rd) @ ''_'' @ mathRandom rd)))),
           (''title'', js_or (getProp raw ''title'') (JStr ''Untitled'')),
           (''snippet'', js_or (getProp raw ''description'')
                           (js_or (getProp raw ''snippet'') (JStr []))),
           (''url'', js_or (getProp raw ''url'') (JStr ''#'')),
           (''image'', js_or (getProp raw ''image'') placeholderImage),
           (''publishedAt'', js_or (getProp raw ''publishedAt'') (JStr (isoString rd))),
           (''source'', js_or (getProp raw ''source'') (JStr ''Newszoid'')),
           (''category'', js_or (getProp raw ''category'') (JStr ''general'')),
           (''aiSummary'', JNull)]))"

text \<open>
  The function with its \<^verbatim>\<open>catch\<close> clause, which logs the error and returns null. The
  result is again a computation that may throw, so that "it does not throw" is a
  statement about the function and not about its type.
\<close>

definition normalizeArticle :: "reading \<Rightarrow> jsval \<Rightarrow> jsval \<Rightarrow> js_error + jsval" where
  "normalizeArticle rd source raw =
     (case normalizeArticle_try rd source raw of
        Inl error \<Rightarrow> Inr JNull
      | Inr article \<Rightarrow> Inr article)"

text \<open>
  The shape of a normalised article: an object with the nine properties of the literals,
  in their order, whose id, title, URL, image, source and category are not empty and
  whose summary is null. (The values are whatever the payload held; nothing checks that
  they are strings.)
\<close>

definition articleKeys :: "string list" where
  "articleKeys = [''id'', ''title'', ''snippet'', ''url'', ''image'', ''publishedAt'',
                  ''source'', ''category'', ''aiSummary'']"

definition isNormalizedArticle :: "jsval \<Rightarrow> bool" where
  "isNormalizedArticle v =
     (case v of
        JObj kvs \<Rightarrow>
          map fst kvs = articleKeys
          \<and> list_all (\<lambda>k. truthy (getProp v k))
                [''id'', ''title'', ''url'', ''image'', ''source'', ''category'']
          \<and> getProp v ''aiSummary'' = JNull
      | _ \<Rightarrow> False)"

text \<open>
  \<^verbatim>\<open>items.map(f)\<close> for a callback that may throw: the first exception ends the whole
  map. The callback receives the index of the item.
\<close>

fun mapThrowing :: "(nat \<Rightarrow> 'a \<Rightarrow> js_error + 'b) \<Rightarrow> nat \<Rightarrow> 'a list \<Rightarrow> js_error + 'b list" where
  "mapThrowing f i [] = Inr []"
| "mapThrowing f i (x # xs) =
     (case f i x of
        Inl e \<Rightarrow> Inl e
      | Inr y \<Rightarrow> (case mapThrowing f (Suc i) xs of Inl e \<Rightarrow> Inl e | Inr ys \<Rightarrow> Inr (y # ys)))"

section \<open>Strings and numbers of the request\<close>

text \<open>
  The model's strings are byte strings. \<^verbatim>\<open>toLowerCase\<close>, \<^verbatim>\<open>trim\<close> and the length of a
  string are modelled for ASCII text, which all keys of the static tables are; bytes
  outside ASCII are left as they are.
\<close>

definition lowerChar :: "char \<Rightarrow> char" where
  "lowerChar c =
     (case map_of (zip ''ABCDEFGHIJKLMNOPQRSTUVWXYZ'' ''abcdefghijklmnopqrstuvwxyz'') c of
        Some l \<Rightarrow> l
      | None \<Rightarrow> c)"

definition toLowerCase :: "string \<Rightarrow> string" where
  "toLowerCase s = map lowerChar s"

definition isSpace :: "char \<Rightarrow> bool" where
  "isSpace c = (c \<in> set [CHR 0x09, CHR 0x0A, CHR 0x0B, CHR 0x0C, CHR 0x0D, CHR '' ''])"

definition trim :: "string \<Rightarrow> string" where
  "trim s = rev (dropWhile isSpace (rev (dropWhile isSpace s)))"

text \<open>\<^verbatim>\<open>s.includes(k)\<close>: \<open>k\<close> occurs in \<open>s\<close> as a contiguous substring.\<close>

fun js_includes :: "string \<Rightarrow> string \<Rightarrow> bool" where
  "js_includes [] k = (k = [])"
| "js_includes (c # cs) k = (take (length k) (c # cs) = k \<or> js_includes cs k)"

definition isDigit :: "char \<Rightarrow> bool" where
  "isDigit c = (c \<in> set ''0123456789'')"

definition digitsValue :: "string \<Rightarrow> nat" where
  "digitsValue ds = foldl (\<lambda>acc c. 10 * acc + ((of_char c :: nat) - 48)) 0 ds"

text \<open>
  \<^verbatim>\<open>parseInt(s, 10)\<close>: leading white space, an optional sign, then the longest run of
  decimal digits; \<open>None\<close> stands for \<open>NaN\<close>. The result is exact below \<open>2^53\<close>; the router
  admits no page above 100 and no page size above 50.
\<close>

definition js_parseInt :: "string \<Rightarrow> int option" where
  "js_parseInt s =
     (let t = dropWhile isSpace s;
          negative = (t \<noteq> [] \<and> hd t = CHR ''-'');
          r = (if t \<noteq> [] \<and> (hd t = CHR ''-'' \<or> hd t = CHR ''+'') then tl t else t);
          ds = takeWhile isDigit r
      in if ds = [] then None
         else Some (if negative then - int (digitsValue ds) else int (digitsValue ds)))"

text \<open>\<^verbatim>\<open>Math.max(1, x)\<close> and \<^verbatim>\<open>Math.min(m, x)\<close> on an integer or \<open>NaN\<close>.\<close>

definition mathMax :: "int \<Rightarrow> int option \<Rightarrow> int option" where
  "mathMax m x = map_option (max m) x"

definition mathMin :: "int \<Rightarrow> int option \<Rightarrow> int option" where
  "mathMin m x = map_option (min m) x"

definition numText :: "int option \<Rightarrow> string" where
  "numText x = (case x of None \<Rightarrow> ''NaN'' | Some n \<Rightarrow> show_int n)"

definition numVal :: "int option \<Rightarrow> jsval" where
  "numVal x = (case x of None \<Rightarrow> JNum NaN | Some n \<Rightarrow> JNum (Finite (of_int n)))"

text \<open>\<^verbatim>\<open>xs.slice(0, n)\<close>: \<open>NaN\<close> counts as 0.\<close>

definition sliceTo :: "int option \<Rightarrow> 'a list \<Rightarrow> 'a list" where
  "sliceTo n xs = (case n of None \<Rightarrow> [] | Some k \<Rightarrow> take (nat k) xs)"

text \<open>
  \<^verbatim>\<open>req.query.x || d\<close> for a query parameter that is absent or a string, as the
  middleware of the server (\<^verbatim>\<open>hpp()\<close>, then the validation chains of the router) hands
  it to the controller.
\<close>

definition orDefault :: "string option \<Rightarrow> string \<Rightarrow> string" where
  "orDefault v d = (case v of None \<Rightarrow> d | Some s \<Rightarrow> if s = [] then d else s)"

section \<open>The cache\<close>

text \<open>
  The cache is an instance of the library node-cache, created with a standard TTL and
  otherwise default options; the library is not part of the sources. Its entries are
  copies of the values stored. An entry of the model is the key, the value and the
  instant in milliseconds after which the entry is expired, 0 standing for "never".
\<close>

type_synonym cache = "(string \<times> jsval \<times> nat) list"

text \<open>
  Modelled from the spec: \<^verbatim>\<open>cache.get(key)\<close> of node-cache, which is missing from the
  sources. Section 4.4 and the data model describe it: the value or a miss (undefined);
  expiry is time-based, an expired entry is treated as a miss and is evicted lazily on
  that access.
\<close>

definition cache_get :: "cache \<Rightarrow> string \<Rightarrow> nat \<Rightarrow> jsval \<times> cache" where
  "cache_get c key now =
     (case map_of c key of
        None \<Rightarrow> (JUndefined, c)
      | Some (v, t) \<Rightarrow>
          if t \<noteq> 0 \<and> t < now then (JUndefined, filter (\<lambda>e. fst e \<noteq> key) c)
          else (v, c))"

text \<open>
  Modelled from the spec: \<^verbatim>\<open>cache.set(key, value)\<close> of node-cache, which is missing
  from the sources. The entry replaces any earlier one of the key and expires the
  standard TTL (in seconds) after the current instant; a standard TTL of 0 means that it
  never expires.
\<close>

definition cache_set :: "cache \<Rightarrow> string \<Rightarrow> jsval \<Rightarrow> nat \<Rightarrow> nat \<Rightarrow> cache" where
  "cache_set c key v now ttl =
     (key, v, if ttl = 0 then 0 else now + ttl * 1000) # filter (\<lambda>e. fst e \<noteq> key) c"

section \<open>The static tables\<close>

definition CATEGORY_MAP :: obj where
  "CATEGORY_MAP =
     [(''general'', JStr ''latest news''),
      (''india'', JStr ''India news''),
      (''world'', JStr ''international world news''),
      (''business'', JStr ''business finance economy''),
      (''technology'', JStr ''technology AI innovation''),
      (''sports'', JStr ''sports cricket football''),
      (''environment'', JStr ''climate environment pollution''),
      (''education'', JStr ''education schools universities''),
      (''health'', JStr ''health medicine healthcare''),
      (''science'', JStr ''science research space''),
      (''economy'', JStr ''inflation economy GDP''),
      (''legal'', JStr ''court law judiciary''),
      (''culture'', JStr ''culture arts entertainment''),
      (''global-politics'', JStr ''international politics diplomacy''),
      (''global-finance'', JStr ''global markets finance'')]"

text \<open>\<^verbatim>\<open>INDIAN_CITIES\<close>: key, display name and search phrase, in the order of the literal.\<close>

definition INDIAN_CITIES :: "(string \<times> string \<times> string) list" where
  "INDIAN_CITIES =
     [(''delhi'', ''Delhi'', ''Delhi NCR news''),
      (''mumbai'', ''Mumbai'', ''Mumbai news''),
      (''bangalore'', ''Bangalore'', ''Bangalore Bengaluru news''),
      (''chennai'', ''Chennai'', ''Chennai news''),
      (''kolkata'', ''Kolkata'', ''Kolkata news''),
      (''hyderabad'', ''Hyderabad'', ''Hyderabad news''),
      (''pune'', ''Pune'', ''Pune news''),
      (''ahmedabad'', ''Ahmedabad'', ''Ahmedabad news'')]"

text \<open>
  \<^verbatim>\<open>utils/hardcodedData.js\<close>: the canned articles of each category. Every
  \<^verbatim>\<open>publishedAt\<close> is \<^verbatim>\<open>new Date().toISOString()\<close> evaluated when the module is loaded;
  \<open>loadedAt\<close> gives that text for the entry with the given id.
\<close>

definition fallback_general :: "(string \<Rightarrow> string) \<Rightarrow> obj list" where
  "fallback_general loadedAt =
     [[(''id'', JStr ''fallback_gen_1''),
       (''title'', JStr ''Breaking: Major Policy Announcement Expected''),
       (''snippet'', JStr ''Government officials hint at significant policy changes in upcoming session.''),
       (''url'', JStr ''#''),
       (''image'', JStr ''https://via.placeholder.com/600x400?text=Breaking+News''),
       (''publishedAt'', JStr (loadedAt ''fallback_gen_1'')),
       (''source'', JStr ''Newszoid''),
       (''category'', JStr ''general'')],
      [(''id'', JStr ''fallback_gen_2''),
       (''title'', JStr ''Technology Sector Shows Strong Growth''),
       (''snippet'', JStr ''Tech companies report record revenues as digital transformation accelerates.''),
       (''url'', JStr ''#''),
       (''image'', JStr ''https://via.placeholder.com/600x400?text=Tech+Growth''),
       (''publishedAt'', JStr (loadedAt ''fallback_gen_2'')),
       (''source'', JStr ''Newszoid''),
       (''category'', JStr ''general'')]]"

definition fallback_india :: "(string \<Rightarrow> string) \<Rightarrow> obj list" where
  "fallback_india loadedAt =
     [[(''id'', JStr ''fallback_in_1''),
       (''title'', JStr ''Supreme Court Reviews Constitutional Amendments''),
       (''snippet'', JStr ''The Supreme Court of India examines petitions challenging recent constitutional changes.''),
       (''url'', JStr ''#''),
       (''image'', JStr ''https://via.placeholder.com/600x400?text=Supreme+Court''),
       (''publishedAt'', JStr (loadedAt ''fallback_in_1'')),
       (''source'', JStr ''Newszoid India''),
       (''category'', JStr ''india'')],
      [(''id'', JStr ''fallback_in_2''),
       (''title'', JStr ''Parliament Passes Digital Privacy Bill''),
       (''snippet'', JStr ''Landmark legislation aims to protect citizen data rights in digital age.''),
       (''url'', JStr ''#''),
       (''image'', JStr ''https://via.placeholder.com/600x400?text=Parliament''),
       (''publishedAt'', JStr (loadedAt ''fallback_in_2'')),
       (''source'', JStr ''Newszoid India''),
       (''category'', JStr ''india'')],
      [(''id'', JStr ''fallback_in_3''),
       (''title'', JStr ''Infrastructure Development Gets Major Boost''),
       (''snippet'', JStr ''Government announces new funding for roads, railways, and urban infrastructure.''),
       (''url'', JStr ''#''),
       (''image'', JStr ''https://via.placeholder.com/600x400?text=Infrastructure''),
       (''publishedAt'', JStr (loadedAt ''fallback_in_3'')),
       (''source'', JStr ''Newszoid India''),
       (''category'', JStr ''india'')]]"

definition fallback_world :: "(string \<Rightarrow> string) \<Rightarrow> obj list" where
  "fallback_world loadedAt =
     [[(''id'', JStr ''fallback_world_1''),
       (''title'', JStr ''Climate Summit Reaches Historic Agreement''),
       (''snippet'', JStr ''Global leaders commit to new climate fund and emission reduction targets.''),
       (''url'', JStr ''#''),
       (''image'', JStr ''https://via.placeholder.com/600x400?text=Climate+Summit''),
       (''publishedAt'', JStr (loadedAt ''fallback_world_1'')),
       (''source'', JStr ''Global News''),
       (''category'', JStr ''world'')],
      [(''id'', JStr ''fallback_world_2''),
       (''title'', JStr ''International Trade Agreements Signed''),
       (''snippet'', JStr ''Major economies finalize new trade partnerships to boost economic cooperation.''),
       (''url'', JStr ''#''),
       (''image'', JStr ''https://via.placeholder.com/600x400?text=Trade''),
       (''publishedAt'', JStr (loadedAt ''fallback_world_2'')),
       (''source'', JStr ''Global News''),
       (''category'', JStr ''world'')]]"

definition fallback_business :: "(string \<Rightarrow> string) \<Rightarrow> obj list" where
  "fallback_business loadedAt =
     [[(''id'', JStr ''fallback_biz_1''),
       (''title'', JStr ''Stock Markets Hit Record Highs''),
       (''snippet'', JStr ''Major indices surge as investor confidence strengthens amid positive earnings.''),
       (''url'', JStr ''#''),
       (''image'', JStr ''https://via.placeholder.com/600x400?text=Stock+Market''),
       (''publishedAt'', JStr (loadedAt ''fallback_biz_1'')),
       (''source'', JStr ''Newszoid Business''),
       (''category'', JStr ''business'')],
      [(''id'', JStr ''fallback_biz_2''),
       (''title'', JStr ''Startup Ecosystem Attracts Record Investment''),
       (''snippet'', JStr ''Venture capital funding reaches new heights in technology and innovation sectors.''),
       (''url'', JStr ''#''),
       (''image'', JStr ''https://via.placeholder.com/600x400?text=Startups''),
       (''publishedAt'', JStr (loadedAt ''fallback_biz_2'')),
       (''source'', JStr ''Newszoid Business''),
       (''category'', JStr ''business'')]]"

definition fallback_technology :: "(string \<Rightarrow> string) \<Rightarrow> obj list" where
  "fallback_technology loadedAt =
     [[(''id'', JStr ''fallback_tech_1''),
       (''title'', JStr ''AI Revolution Transforms Industries''),
       (''snippet'', JStr ''Artificial intelligence adoption accelerates across healthcare, finance, and manufacturing.''),
       (''url'', JStr ''#''),
       (''image'', JStr ''https://via.placeholder.com/600x400?text=AI''),
       (''publishedAt'', JStr (loadedAt ''fallback_tech_1'')),
       (''source'', JStr ''Tech Daily''),
       (''category'', JStr ''technology'')],
      [(''id'', JStr ''fallback_tech_2''),
       (''title'', JStr ''Quantum Computing Breakthrough Announced''),
       (''snippet'', JStr ''Research teams achieve major milestone in quantum processor development.''),
       (''url'', JStr ''#''),
       (''image'', JStr ''https://via.placeholder.com/600x400?text=Quantum''),
       (''publishedAt'', JStr (loadedAt ''fallback_tech_2'')),
       (''source'', JStr ''Tech Daily''),
       (''category'', JStr ''technology'')]]"

definition fallback_sports :: "(string \<Rightarrow> string) \<Rightarrow> obj list" where
  "fallback_sports loadedAt =
     [[(''id'', JStr ''fallback_sport_1''),
       (''title'', JStr ''Cricket World Cup Final Approaches''),
       (''snippet'', JStr ''Teams prepare for high-stakes championship match as fans worldwide anticipate.''),
       (''url'', JStr ''#''),
       (''image'', JStr ''https://via.placeholder.com/600x400?text=Cricket''),
       (''publishedAt'', JStr (loadedAt ''fallback_sport_1'')),
       (''source'', JStr ''Sports Today''),
       (''category'', JStr ''sports'')],
      [(''id'', JStr ''fallback_sport_2''),
       (''title'', JStr ''Olympic Athletes Break Records''),
       (''snippet'', JStr ''Multiple world records fall as competition intensifies at international games.''),
       (''url'', JStr ''#''),
       (''image'', JStr ''https://via.placeholder.com/600x400?text=Olympics''),
       (''publishedAt'', JStr (loadedAt ''fallback_sport_2'')),
       (''source'', JStr ''Sports Today''),
       (''category'', JStr ''sports'')]]"

definition fallback_environment :: "(string \<Rightarrow> string) \<Rightarrow> obj list" where
  "fallback_environment loadedAt =
     [[(''id'', JStr ''fallback_env_1''),
       (''title'', JStr ''Renewable Energy Costs Continue to Drop''),
       (''snippet'', JStr ''Solar and wind power become most economical electricity sources globally.''),
       (''url'', JStr ''#''),
       (''image'', JStr ''https://via.placeholder.com/600x400?text=Renewable+Energy''),
       (''publishedAt'', JStr (loadedAt ''fallback_env_1'')),
       (''source'', JStr ''EcoWorld''),
       (''category'', JStr ''environment'')],
      [(''id'', JStr ''fallback_env_2''),
       (''title'', JStr ''Forest Conservation Efforts Expand''),
       (''snippet'', JStr ''New initiatives aim to protect biodiversity and combat deforestation.''),
       (''url'', JStr ''#''),
       (''image'', JStr ''https://via.placeholder.com/600x400?text=Forest''),
       (''publishedAt'', JStr (loadedAt ''fallback_env_2'')),
       (''source'', JStr ''EcoWorld''),
       (''category'', JStr ''environment'')]]"

definition fallback_education :: "(string \<Rightarrow> string) \<Rightarrow> obj list" where
  "fallback_education loadedAt =
     [[(''id'', JStr ''fallback_edu_1''),
       (''title'', JStr ''Education Reform Focuses on Digital Skills''),
       (''snippet'', JStr ''Curriculum updates emphasize technology literacy and critical thinking.''),
       (''url'', JStr ''#''),
       (''image'', JStr ''https://via.placeholder.com/600x400?text=Education''),
       (''publishedAt'', JStr (loadedAt ''fallback_edu_1'')),
       (''source'', JStr ''Education Today''),
       (''category'', JStr ''education'')],
      [(''id'', JStr ''fallback_edu_2''),
       (''title'', JStr ''Universities Launch New Research Programs''),
       (''snippet'', JStr ''Academic institutions expand offerings in emerging fields and interdisciplinary studies.''),
       (''url'', JStr ''#''),
       (''image'', JStr ''https://via.placeholder.com/600x400?text=University''),
       (''publishedAt'', JStr (loadedAt ''fallback_edu_2'')),
       (''source'', JStr ''Education Today''),
       (''category'', JStr ''education'')]]"

definition fallback_health :: "(string \<Rightarrow> string) \<Rightarrow> obj list" where
  "fallback_health loadedAt =
     [[(''id'', JStr ''fallback_health_1''),
       (''title'', JStr ''Medical Breakthrough in Cancer Treatment''),
       (''snippet'', JStr ''New therapy shows promising results in clinical trials for multiple cancer types.''),
       (''url'', JStr ''#''),
       (''image'', JStr ''https://via.placeholder.com/600x400?text=Medical+Research''),
       (''publishedAt'', JStr (loadedAt ''fallback_health_1'')),
       (''source'', JStr ''Health News''),
       (''category'', JStr ''health'')],
      [(''id'', JStr ''fallback_health_2''),
       (''title'', JStr ''Mental Health Awareness Programs Expand''),
       (''snippet'', JStr ''Communities invest in accessible mental health services and support systems.''),
       (''url'', JStr ''#''),
       (''image'', JStr ''https://via.placeholder.com/600x400?text=Mental+Health''),
       (''publishedAt'', JStr (loadedAt ''fallback_health_2'')),
       (''source'', JStr ''Health News''),
       (''category'', JStr ''health'')]]"

definition fallback_science :: "(string \<Rightarrow> string) \<Rightarrow> obj list" where
  "fallback_science loadedAt =
     [[(''id'', JStr ''fallback_sci_1''),
       (''title'', JStr ''Space Mission Discovers New Exoplanets''),
       (''snippet'', JStr ''Telescope identifies potentially habitable worlds in distant star systems.''),
       (''url'', JStr ''#''),
       (''image'', JStr ''https://via.placeholder.com/600x400?text=Space''),
       (''publishedAt'', JStr (loadedAt ''fallback_sci_1'')),
       (''source'', JStr ''Science Daily''),
       (''category'', JStr ''science'')],
      [(''id'', JStr ''fallback_sci_2''),
       (''title'', JStr ''Particle Physics Experiment Yields Surprising Results''),
       (''snippet'', JStr ''Researchers detect unexpected phenomena in high-energy collider experiments.''),
       (''url'', JStr ''#''),
       (''image'', JStr ''https://via.placeholder.com/600x400?text=Physics''),
       (''publishedAt'', JStr (loadedAt ''fallback_sci_2'')),
       (''source'', JStr ''Science Daily''),
       (''category'', JStr ''science'')]]"

definition fallback_economy :: "(string \<Rightarrow> string) \<Rightarrow> obj list" where
  "fallback_economy loadedAt =
     [[(''id'', JStr ''fallback_econ_1''),
       (''title'', JStr ''Central Bank Maintains Interest Rates''),
       (''snippet'', JStr ''Monetary policy remains steady as inflation shows signs of stabilization.''),
       (''url'', JStr ''#''),
       (''image'', JStr ''https://via.placeholder.com/600x400?text=Economy''),
       (''publishedAt'', JStr (loadedAt ''fallback_econ_1'')),
       (''source'', JStr ''Economic Times''),
       (''category'', JStr ''economy'')],
      [(''id'', JStr ''fallback_econ_2''),
       (''title'', JStr ''GDP Growth Exceeds Expectations''),
       (''snippet'', JStr ''Economic expansion accelerates driven by consumer spending and investments.''),
       (''url'', JStr ''#''),
       (''image'', JStr ''https://via.placeholder.com/600x400?text=GDP''),
       (''publishedAt'', JStr (loadedAt ''fallback_econ_2'')),
       (''source'', JStr ''Economic Times''),
       (''category'', JStr ''economy'')]]"

definition fallback_legal :: "(string \<Rightarrow> string) \<Rightarrow> obj list" where
  "fallback_legal loadedAt =
     [[(''id'', JStr ''fallback_legal_1''),
       (''title'', JStr ''High Court Delivers Landmark Judgment''),
       (''snippet'', JStr ''Decision sets important precedent for civil rights and constitutional law.''),
       (''url'', JStr ''#''),
       (''image'', JStr ''https://via.placeholder.com/600x400?text=Court''),
       (''publishedAt'', JStr (loadedAt ''fallback_legal_1'')),
       (''source'', JStr ''Legal News''),
       (''category'', JStr ''legal'')],
      [(''id'', JStr ''fallback_legal_2''),
       (''title'', JStr ''New Legislation Addresses Digital Rights''),
       (''snippet'', JStr ''Laws updated to reflect modern challenges in privacy and data protection.''),
       (''url'', JStr ''#''),
       (''image'', JStr ''https://via.placeholder.com/600x400?text=Law''),
       (''publishedAt'', JStr (loadedAt ''fallback_legal_2'')),
       (''source'', JStr ''Legal News''),
       (''category'', JStr ''legal'')]]"

definition fallback_culture :: "(string \<Rightarrow> string) \<Rightarrow> obj list" where
  "fallback_culture loadedAt =
     [[(''id'', JStr ''fallback_culture_1''),
       (''title'', JStr ''Film Festival Showcases International Cinema''),
       (''snippet'', JStr ''Diverse storytelling from around the world celebrated at annual event.''),
       (''url'', JStr ''#''),
       (''image'', JStr ''https://via.placeholder.com/600x400?text=Film+Festival''),
       (''publishedAt'', JStr (loadedAt ''fallback_culture_1'')),
       (''source'', JStr ''Culture Beat''),
       (''category'', JStr ''culture'')],
      [(''id'', JStr ''fallback_culture_2''),
       (''title'', JStr ''Museum Exhibition Explores Ancient Civilizations''),
       (''snippet'', JStr ''Artifacts and interactive displays bring history to life for visitors.''),
       (''url'', JStr ''#''),
       (''image'', JStr ''https://via.placeholder.com/600x400?text=Museum''),
       (''publishedAt'', JStr (loadedAt ''fallback_culture_2'')),
       (''source'', JStr ''Culture Beat''),
       (''category'', JStr ''culture'')]]"

definition HARDCODED_DATA_news :: "(string \<Rightarrow> string) \<Rightarrow> (string \<times> obj list) list" where
  "HARDCODED_DATA_news loadedAt =
     [(''general'', fallback_general loadedAt),
      (''india'', fallback_india loadedAt),
      (''world'', fallback_world loadedAt),
      (''business'', fallback_business loadedAt),
      (''technology'', fallback_technology loadedAt),
      (''sports'', fallback_sports loadedAt),
      (''environment'', fallback_environment loadedAt),
      (''education'', fallback_education loadedAt),
      (''health'', fallback_health loadedAt),
      (''science'', fallback_science loadedAt),
      (''economy'', fallback_economy loadedAt),
      (''legal'', fallback_legal loadedAt),
      (''culture'', fallback_culture loadedAt)]"

section \<open>Environment and state of a request\<close>

text \<open>
  What a call of a handler reads from outside the program: the two provider credentials
  of the process environment, whether the summarisation model was initialised, the
  standard TTL of the cache in seconds, the clock when the cache is read and when it is
  written, the text of \<^verbatim>\<open>new Date().toISOString()\<close> when the local fallback record is
  built, the network (\<open>net url i\<close> is the outcome of the attempt with index \<open>i\<close> on
  \<open>url\<close>), the reading taken by the normalisation of item \<open>j\<close> of the request with index
  \<open>i\<close> (\<open>readings i j\<close>), the time value of \<^verbatim>\<open>new Date(v)\<close> in milliseconds (\<open>None\<close> for
  an invalid date), and \<^verbatim>\<open>encodeURIComponent\<close>. These built-ins of the platform are
  parameters of the model. \<open>fault\<close> is an exception the runtime or a library raises inside
  the \<^verbatim>\<open>try\<close> block of the handler, before its first statement completes: the
  unexpected internal error the \<^verbatim>\<open>catch\<close> clause is written for; it is \<open>None\<close> in
  normal operation.
\<close>

record env =
  GNEWS_API_KEY :: "string option"
  GUARDIAN_API_KEY :: "string option"
  geminiModel :: bool
  stdTTL :: nat
  clockGet :: nat
  clockSet :: nat
  isoNow :: string
  net :: "string \<Rightarrow> nat \<Rightarrow> js_error + jsval"
  readings :: "nat \<Rightarrow> nat \<Rightarrow> reading"
  dateValue :: "jsval \<Rightarrow> int option"
  encodeURIComponent :: "jsval \<Rightarrow> string"
  fault :: "js_error option"

text \<open>
  The state shared by all requests: the cache, and the arrays of
  \<^verbatim>\<open>HARDCODED_DATA.news\<close>, which \<^verbatim>\<open>getNews\<close> sorts in place when it substitutes them
  for an empty result.
\<close>

record state =
  cache :: cache
  news :: "(string \<times> obj list) list"

record response =
  status :: nat
  body :: obj

record outcome =
  resp :: response
  after :: state
  log :: "event list"

record query =
  category :: "string option"
  page :: "string option"
  pageSize :: "string option"

record localQuery =
  location :: "string option"
  lpage :: "string option"
  lpageSize :: "string option"

text \<open>\<^verbatim>\<open>res.json(b)\<close> answers with status 200; \<^verbatim>\<open>res.status(n).json(b)\<close> with \<open>n\<close>.\<close>

definition json :: "obj \<Rightarrow> response" where
  "json b = \<lparr>status = 200, body = b\<rparr>"

definition statusJson :: "nat \<Rightarrow> obj \<Rightarrow> response" where
  "statusJson n b = \<lparr>status = n, body = b\<rparr>"

section \<open>Building the provider requests\<close>

record request =
  provider :: string
  url :: string

definition configured :: "string option \<Rightarrow> string \<Rightarrow> bool" where
  "configured key placeholder =
     (case key of None \<Rightarrow> False | Some k \<Rightarrow> k \<noteq> [] \<and> k \<noteq> placeholder)"

definition buildAPIRequests :: "env \<Rightarrow> jsval \<Rightarrow> int option \<Rightarrow> int option \<Rightarrow> request list" where
  "buildAPIRequests e searchQuery pg ps =
     (if configured (GNEWS_API_KEY e) ''your_gnews_api_key_here'' then
        [\<lparr>provider = ''gnews'',
          url = ''https://gnews.io/api/v4/search?q='' @ encodeURIComponent e searchQuery
                @ ''&lang=en&max='' @ numText (mathMin 10 ps)
                @ ''&page='' @ numText pg
                @ ''&token='' @ the (GNEWS_API_KEY e)\<rparr>]
      else [])
     @
     (if configured (GUARDIAN_API_KEY e) ''your_guardian_api_key_here'' then
        [\<lparr>provider = ''guardian'',
          url = ''https://content.guardianapis.com/search?api-key='' @ the (GUARDIAN_API_KEY e)
                @ ''&q='' @ encodeURIComponent e searchQuery
                @ ''&show-fields=trailText,thumbnail,bodyText&page='' @ numText pg
                @ ''&page-size='' @ numText (mathMin 20 ps)\<rparr>]
      else [])"

section \<open>Calling one provider\<close>

text \<open>
  The body of the callback given to \<^verbatim>\<open>requests.map\<close>, after the fetch has returned
  \<open>data\<close>. Reading \<^verbatim>\<open>data.articles\<close> or \<^verbatim>\<open>data.response\<close> throws when \<open>data\<close> is
  undefined or null; calling \<^verbatim>\<open>map\<close> on results that are truthy and not an array
  throws. \<open>idx\<close> is the index of the request.
\<close>

definition extractArticles :: "env \<Rightarrow> nat \<Rightarrow> request \<Rightarrow> jsval \<Rightarrow> js_error + jsval list" where
  "extractArticles e idx req data =
     (if provider req = ''gnews'' then
        (case js_get data ''articles'' of
           Inl err \<Rightarrow> Inl err
         | Inr arts \<Rightarrow>
             (case arts of
                JArr items \<Rightarrow>
                  (case mapThrowing (\<lambda>j a. normalizeArticle (readings e idx j) (JStr ''gnews'') a) 0 items of
                     Inl err \<Rightarrow> Inl err
                   | Inr normalized \<Rightarrow> Inr (filter truthy normalized))
              | _ \<Rightarrow> Inr []))
      else if provider req = ''guardian'' then
        (case js_get data ''response'' of
           Inl err \<Rightarrow> Inl err
         | Inr r \<Rightarrow>
             (let results = opt_chain r ''results''
              in if truthy results then
                   (case results of
                      JArr items \<Rightarrow>
                        (case mapThrowing (\<lambda>j a. normalizeArticle (readings e idx j) (JStr ''guardian'') a) 0 items of
                           Inl err \<Rightarrow> Inl err
                         | Inr normalized \<Rightarrow> Inr (filter truthy normalized))
                    | _ \<Rightarrow> Inl (TypeError ''data.response.results.map is not a function''))
                 else Inr []))
      else Inr [])"

text \<open>
  The whole callback: the fetch with the default of two retries, then the extraction;
  its \<^verbatim>\<open>catch\<close> clause turns every exception into an empty list.
\<close>

definition providerCall :: "env \<Rightarrow> nat \<Rightarrow> request \<Rightarrow> jsval list \<times> event list" where
  "providerCall e idx req =
     (let (r, tr) = fetchWithRetry (net e (url req)) (url req) 2
      in (case r of
            Inl err \<Rightarrow> ([], tr)
          | Inr data \<Rightarrow>
              (case extractArticles e idx req data of
                 Inl err \<Rightarrow> ([], tr)
               | Inr arts \<Rightarrow> (arts, tr))))"

text \<open>
  \<^verbatim>\<open>Promise.allSettled\<close> over the callbacks, then the merge: the fulfilled values,
  flattened, without the falsy ones. Every callback fulfils, since it catches its own
  exceptions. The provider calls run concurrently; the log lists them request by
  request.
\<close>

definition mergeResponses :: "env \<Rightarrow> request list \<Rightarrow> jsval list \<times> event list" where
  "mergeResponses e requests =
     (let responses = map (\<lambda>(idx, req). providerCall e idx req) (enumerate 0 requests)
      in (filter truthy (concat (map fst responses)), concat (map snd responses)))"

section \<open>Deduplication and sorting\<close>

text \<open>
  Membership in a \<^verbatim>\<open>Set\<close> compares with SameValueZero: primitives by value (\<open>NaN\<close>
  equals itself), objects and arrays by identity. Every object or array that reaches
  the set comes from its own place in a parsed payload, so two of them are never the
  same one.
\<close>

fun sameValueZero :: "jsval \<Rightarrow> jsval \<Rightarrow> bool" where
  "sameValueZero (JArr xs) b = False"
| "sameValueZero (JObj kvs) b = False"
| "sameValueZero a b = (a = b)"

definition setHas :: "jsval list \<Rightarrow> jsval \<Rightarrow> bool" where
  "setHas seen key = list_ex (\<lambda>k. sameValueZero k key) seen"

text \<open>
  The filter that deduplicates by URL, with the set \<open>seen\<close> as it stands when the
  callback reaches the article. The articles passed \<^verbatim>\<open>filter(Boolean)\<close>, so reading
  their \<^verbatim>\<open>url\<close> does not throw.
\<close>

fun dedupFilter :: "jsval list \<Rightarrow> jsval list \<Rightarrow> jsval list" where
  "dedupFilter seen [] = []"
| "dedupFilter seen (article # rest) =
     (let key = getProp article ''url''
      in if setHas seen key then dedupFilter seen rest
         else article # dedupFilter (seen @ [key]) rest)"

definition dedupByUrl :: "jsval list \<Rightarrow> jsval list" where
  "dedupByUrl articles = dedupFilter [] articles"

text \<open>
  \<^verbatim>\<open>articles.sort((a, b) => new Date(b.publishedAt) - new Date(a.publishedAt))\<close>. The
  difference is \<open>NaN\<close> when a date is invalid, which the sort reads as 0. The sort is
  stable; it is modelled by insertion. (When some date is invalid the comparator is not
  a consistent order and the language leaves the resulting order to the implementation;
  what is proved below uses only that the result is a permutation of the array.)
\<close>

definition dateDiff :: "(jsval \<Rightarrow> int option) \<Rightarrow> jsval \<Rightarrow> jsval \<Rightarrow> int" where
  "dateDiff dv a b =
     (case (dv (getProp b ''publishedAt''), dv (getProp a ''publishedAt'')) of
        (Some tb, Some ta) \<Rightarrow> tb - ta
      | _ \<Rightarrow> 0)"

fun insertSorted :: "('a \<Rightarrow> 'a \<Rightarrow> int) \<Rightarrow> 'a \<Rightarrow> 'a list \<Rightarrow> 'a list" where
  "insertSorted cmp x [] = [x]"
| "insertSorted cmp x (y # ys) =
     (if cmp x y \<le> 0 then x # y # ys else y # insertSorted cmp x ys)"

definition jsSort :: "('a \<Rightarrow> 'a \<Rightarrow> int) \<Rightarrow> 'a list \<Rightarrow> 'a list" where
  "jsSort cmp xs = foldr (insertSorted cmp) xs []"

section \<open>Category news\<close>

definition newsCategory :: "query \<Rightarrow> string" where
  "newsCategory q = trim (toLowerCase (orDefault (category q) ''general''))"

definition newsPage :: "query \<Rightarrow> int option" where
  "newsPage q = mathMax 1 (js_parseInt (orDefault (page q) ''1''))"

definition newsPageSize :: "query \<Rightarrow> int option" where
  "newsPageSize q = mathMin 50 (mathMax 1 (js_parseInt (orDefault (pageSize q) ''10'')))"

definition newsCacheKey :: "query \<Rightarrow> string" where
  "newsCacheKey q =
     ''news:'' @ newsCategory q @ '':p'' @ numText (newsPage q) @ '':s'' @ numText (newsPageSize q)"

text \<open>\<^verbatim>\<open>buildAPIRequests(CATEGORY_MAP[category] || category, page, pageSize)\<close>.\<close>

definition newsRequests :: "env \<Rightarrow> query \<Rightarrow> request list" where
  "newsRequests e q =
     buildAPIRequests e
       (js_or (getProp (JObj CATEGORY_MAP) (newsCategory q)) (JStr (newsCategory q)))
       (newsPage q) (newsPageSize q)"

text \<open>\<^verbatim>\<open>HARDCODED_DATA.news\<close> as a value, from the arrays the state holds.\<close>

definition newsObject :: "(string \<times> obj list) list \<Rightarrow> jsval" where
  "newsObject store = JObj (map (\<lambda>(k, arts). (k, JArr (map JObj arts))) store)"

text \<open>\<^verbatim>\<open>HARDCODED_DATA.news[category] || HARDCODED_DATA.news.general || []\<close>.\<close>

definition newsFallback :: "(string \<times> obj list) list \<Rightarrow> string \<Rightarrow> jsval" where
  "newsFallback store cat =
     js_or (getProp (newsObject store) cat)
       (js_or (getProp (newsObject store) ''general'') (JArr []))"

text \<open>
  The substitution of the fallback for an empty result, followed by
  \<^verbatim>\<open>articles.sort(...)\<close>. The value substituted is \<open>newsFallback\<close>. When it is an array
  of the store, the sort reorders that array in place; when it is the literal \<open>[]\<close>
  nothing is shared; when it is not an array (an inherited property of the object) it has
  no \<^verbatim>\<open>sort\<close> and the call throws. The result is the sorted array and the store.
\<close>

definition storeUpdate :: "string \<Rightarrow> obj list \<Rightarrow> (string \<times> obj list) list \<Rightarrow> (string \<times> obj list) list" where
  "storeUpdate k arts store = map (\<lambda>(k', v). if k' = k then (k', arts) else (k', v)) store"

definition substituteAndSort ::
  "env \<Rightarrow> (string \<times> obj list) list \<Rightarrow> string \<Rightarrow> js_error + (jsval list \<times> (string \<times> obj list) list)"
where
  "substituteAndSort e store cat =
     (let cmp = (\<lambda>a b. dateDiff (dateValue e) (JObj a) (JObj b))
      in case map_of store cat of
           Some arts \<Rightarrow> Inr (map JObj (jsSort cmp arts), storeUpdate cat (jsSort cmp arts) store)
         | None \<Rightarrow>
             if truthy (object_prototype cat) then Inl (TypeError ''articles.sort is not a function'')
             else (case map_of store ''general'' of
                     Some arts \<Rightarrow>
                       Inr (map JObj (jsSort cmp arts), storeUpdate ''general'' (jsSort cmp arts) store)
                   | None \<Rightarrow> Inr ([], store)))"

text \<open>
  The \<^verbatim>\<open>try\<close> block of \<^verbatim>\<open>getNews\<close>. It ends with a response, or with an exception
  together with the state and the log reached when it was thrown. The optional
  enrichment is started before the cache is written and the response is sent, but each
  of its callbacks first awaits the summarisation, so the summaries are assigned only
  after the response is serialised and after the cache has taken its copy; they reach
  neither. (When the articles are the substituted fallback, the assignment later adds an
  \<^verbatim>\<open>aiSummary\<close> property to the canned articles themselves; that happens after the
  handler has answered and is not part of its transition.)
\<close>

definition getNews_try :: "env \<Rightarrow> state \<Rightarrow> query \<Rightarrow> (js_error \<times> state \<times> event list) + outcome" where
  "getNews_try e st q =
     (case fault e of
        Some err \<Rightarrow> Inl (err, st, [])
      | None \<Rightarrow>
         (let cat = newsCategory q;
              pg = newsPage q;
              ps = newsPageSize q;
              cacheKey = newsCacheKey q;
              (cached, c1) = cache_get (cache st) cacheKey (clockGet e);
              st1 = st\<lparr>cache := c1\<rparr>
          in if truthy cached then
               Inr \<lparr>resp = json [(''ok'', JBool True), (''fromCache'', JBool True),
                                 (''aiEnabled'', JBool (geminiModel e)), (''category'', JStr cat),
                                 (''data'', cached)],
                    after = st1, log = []\<rparr>
             else
               (let requests = newsRequests e q
                in if requests = [] then
                     Inr \<lparr>resp = json [(''ok'', JBool True), (''fromCache'', JBool False),
                                       (''isFallback'', JBool True), (''category'', JStr cat),
                                       (''data'', newsFallback (news st1) cat)],
                          after = st1, log = []\<rparr>
                   else
                     (let (merged, tr) = mergeResponses e requests;
                          articles = dedupByUrl merged
                      in case (if articles = [] then substituteAndSort e (news st1) cat
                               else Inr (jsSort (dateDiff (dateValue e)) articles, news st1)) of
                           Inl err \<Rightarrow> Inl (err, st1, tr)
                         | Inr (ordered, store2) \<Rightarrow>
                             (let limited = sliceTo ps ordered
                              in Inr \<lparr>resp = json [(''ok'', JBool True), (''fromCache'', JBool False),
                                                   (''aiEnabled'', JBool (geminiModel e)),
                                                   (''category'', JStr cat),
                                                   (''total'', JNum (Finite (real (length limited)))),
                                                   (''page'', numVal pg), (''pageSize'', numVal ps),
                                                   (''data'', JArr limited)],
                                      after = \<lparr>cache = cache_set c1 cacheKey (JArr limited)
                                                         (clockSet e) (stdTTL e),
                                               news = store2\<rparr>,
                                      log = tr\<rparr>)))))"

text \<open>The handler: the \<^verbatim>\<open>try\<close> block, and the \<^verbatim>\<open>catch\<close> clause with its final fallback.\<close>

definition getNews :: "env \<Rightarrow> state \<Rightarrow> query \<Rightarrow> outcome" where
  "getNews e st q =
     (case getNews_try e st q of
        Inr out \<Rightarrow> out
      | Inl (err, st1, tr) \<Rightarrow>
          (let cat = toLowerCase (orDefault (category q) ''general'')
           in \<lparr>resp = json [(''ok'', JBool True), (''isFallback'', JBool True),
                            (''error'', JStr ''Using fallback data due to server error''),
                            (''category'', JStr cat),
                            (''data'', newsFallback (news st1) cat)],
               after = st1, log = tr\<rparr>))"

section \<open>Local news\<close>

definition localLocation :: "localQuery \<Rightarrow> string" where
  "localLocation q = trim (toLowerCase (orDefault (location q) ''Delhi''))"

definition localPage :: "localQuery \<Rightarrow> int option" where
  "localPage q = mathMax 1 (js_parseInt (orDefault (lpage q) ''1''))"

definition localPageSize :: "localQuery \<Rightarrow> int option" where
  "localPageSize q = mathMin 20 (mathMax 1 (js_parseInt (orDefault (lpageSize q) ''5'')))"

definition localCacheKey :: "localQuery \<Rightarrow> string" where
  "localCacheKey q =
     ''local:'' @ localLocation q @ '':p'' @ numText (localPage q)
       @ '':s'' @ numText (localPageSize q)"

text \<open>
  The search phrase: that of the first city whose key the location contains or which
  contains the location, otherwise the location followed by a fixed phrase.
\<close>

definition localSearchQuery :: "string \<Rightarrow> string" where
  "localSearchQuery loc =
     (case find (\<lambda>(key, name, qry). js_includes (toLowerCase loc) key \<or> js_includes key (toLowerCase loc))
             INDIAN_CITIES of
        Some (key, name, qry) \<Rightarrow> qry
      | None \<Rightarrow> loc @ '' India local news'')"

definition localRequests :: "env \<Rightarrow> localQuery \<Rightarrow> request list" where
  "localRequests e q =
     buildAPIRequests e (JStr (localSearchQuery (localLocation q))) (localPage q) (localPageSize q)"

definition localFallback :: "env \<Rightarrow> string \<Rightarrow> jsval" where
  "localFallback e loc =
     JArr [JObj [(''id'', JStr ''local_fallback_1''),
                 (''title'', JStr (loc @ '' Metro expansion plans announced'')),
                 (''snippet'', JStr ''Local authorities have approved new infrastructure projects.''),
                 (''url'', JStr ''#''),
                 (''image'', JStr ''https://via.placeholder.com/600x400?text=Local+News''),
                 (''publishedAt'', JStr (isoNow e)),
                 (''source'', JStr ''Newszoid Local'')]]"

definition getLocalNews_try ::
  "env \<Rightarrow> state \<Rightarrow> localQuery \<Rightarrow> (js_error \<times> state \<times> event list) + outcome"
where
  "getLocalNews_try e st q =
     (case fault e of
        Some err \<Rightarrow> Inl (err, st, [])
      | None \<Rightarrow>
         (let loc = localLocation q;
              pg = localPage q;
              ps = localPageSize q;
              cacheKey = localCacheKey q;
              (cached, c1) = cache_get (cache st) cacheKey (clockGet e);
              st1 = st\<lparr>cache := c1\<rparr>
          in if truthy cached then
               Inr \<lparr>resp = json [(''ok'', JBool True), (''fromCache'', JBool True),
                                 (''location'', JStr loc), (''data'', cached)],
                    after = st1, log = []\<rparr>
             else
               (let requests = localRequests e q
                in if requests = [] then
                     Inr \<lparr>resp = json [(''ok'', JBool True), (''isFallback'', JBool True),
                                       (''location'', JStr loc), (''data'', localFallback e loc)],
                          after = st1, log = []\<rparr>
                   else
                     (let (merged, tr) = mergeResponses e requests;
                          articles = dedupByUrl merged;
                          limited = sliceTo ps (jsSort (dateDiff (dateValue e)) articles)
                      in Inr \<lparr>resp = json [(''ok'', JBool True), (''fromCache'', JBool False),
                                           (''location'', JStr loc),
                                           (''total'', JNum (Finite (real (length limited)))),
                                           (''data'', JArr limited)],
                              after = st1\<lparr>cache := cache_set c1 cacheKey (JArr limited)
                                                       (clockSet e) (stdTTL e)\<rparr>,
                              log = tr\<rparr>))))"

definition getLocalNews :: "env \<Rightarrow> state \<Rightarrow> localQuery \<Rightarrow> outcome" where
  "getLocalNews e st q =
     (case getLocalNews_try e st q of
        Inr out \<Rightarrow> out
      | Inl (err, st1, tr) \<Rightarrow>
          \<lparr>resp = statusJson 500 [(''ok'', JBool False),
                                  (''error'', JStr ''Failed to fetch local news''),
                                  (''location'', JStr (orDefault (location q) ''Delhi'')),
                                  (''data'', JArr [])],
           after = st1, log = tr\<rparr>)"

section \<open>The routes\<close>

text \<open>
  \<^verbatim>\<open>routes/news.js\<close> puts a validation chain per parameter and the \<^verbatim>\<open>validate\<close>
  middleware before each handler. In the chains of express-validator, \<^verbatim>\<open>optional()\<close>
  skips a parameter that is absent, \<^verbatim>\<open>trim()\<close> replaces the parameter by its trimmed
  text, \<^verbatim>\<open>isLength\<close> bounds the length, and \<^verbatim>\<open>isInt({min, max})\<close> accepts an optional
  sign followed by decimal digits whose value lies within the bounds. A parameter that
  reaches the chains is a string (\<^verbatim>\<open>isString()\<close> holds). Each failed chain contributes
  its message; the error entries are modelled by their messages.
\<close>

definition isInt :: "int \<Rightarrow> int \<Rightarrow> string \<Rightarrow> bool" where
  "isInt lo hi s =
     (let negative = (s \<noteq> [] \<and> hd s = CHR ''-'');
          ds = (if s \<noteq> [] \<and> (hd s = CHR ''-'' \<or> hd s = CHR ''+'') then tl s else s);
          v = (if negative then - int (digitsValue ds) else int (digitsValue ds))
      in ds \<noteq> [] \<and> list_all isDigit ds \<and> lo \<le> v \<and> v \<le> hi)"

definition isLength :: "nat \<Rightarrow> nat \<Rightarrow> string \<Rightarrow> bool" where
  "isLength lo hi s = (lo \<le> length s \<and> length s \<le> hi)"

definition check :: "string option \<Rightarrow> (string \<Rightarrow> bool) \<Rightarrow> string \<Rightarrow> string list" where
  "check param valid message =
     (case param of None \<Rightarrow> [] | Some s \<Rightarrow> if valid s then [] else [message])"

definition validate :: "string list \<Rightarrow> response option" where
  "validate errors =
     (if errors \<noteq> [] then
        Some (statusJson 400 [(''ok'', JBool False), (''errors'', JArr (map JStr errors))])
      else None)"


definition localRoute :: "env \<Rightarrow> state \<Rightarrow> localQuery \<Rightarrow> outcome" where
  "localRoute e st q =
     (let trimmed = q\<lparr>location := map_option trim (location q)\<rparr>;
          errors = check (location trimmed) (isLength 2 100) ''Location must be 2-100 characters''
                   @ check (lpage q) (isInt 1 50) ''Page must be between 1 and 50''
                   @ check (lpageSize q) (isInt 1 20) ''Page size must be between 1 and 20''
      in case validate errors of
           Some rejection \<Rightarrow> \<lparr>resp = rejection, after = st, log = []\<rparr>
         | None \<Rightarrow> getLocalNews e st trimmed)"

text \<open>
  An item carries what its id and its date are derived from: the fields that
  \<^verbatim>\<open>normalizeArticle\<close> reads before it falls back to the clock and the random generator.
\<close>

definition carriesIdAndDate :: "jsval \<Rightarrow> jsval \<Rightarrow> bool" where
  "carriesIdAndDate source raw =
     (if source = JStr ''gnews'' then
        truthy (getProp raw ''url'') \<and> truthy (getProp raw ''publishedAt'')
      else if source = JStr ''guardian'' then
        truthy (getProp raw ''id'') \<and> truthy (getProp raw ''webPublicationDate'')
      else
        (truthy (getProp raw ''url'') \<or> truthy (getProp raw ''id''))
        \<and> truthy (getProp raw ''publishedAt''))"

section \<open>Notions used to state the properties\<close>

text \<open>The articles a response carries in \<^verbatim>\<open>data\<close>.\<close>

definition dataItems :: "response \<Rightarrow> jsval list" where
  "dataItems r = (case map_of (body r) ''data'' of Some (JArr xs) \<Rightarrow> xs | _ \<Rightarrow> [])"


text \<open>No two articles of a list have the same URL, as the set of seen URLs compares them.\<close>

fun noSharedUrl :: "jsval list \<Rightarrow> bool" where
  "noSharedUrl [] = True"
| "noSharedUrl (a # rest) =
     (list_all (\<lambda>b. \<not> sameValueZero (getProp a ''url'') (getProp b ''url'')) rest
      \<and> noSharedUrl rest)"



text \<open>
  The articles that the provider calls of a request yield, merged and deduplicated, and
  the condition under which the handler finds nothing usable in the cache.
\<close>

definition newsLive :: "env \<Rightarrow> query \<Rightarrow> jsval list" where
  "newsLive e q = dedupByUrl (fst (mergeResponses e (newsRequests e q)))"


definition cacheMiss :: "cache \<Rightarrow> string \<Rightarrow> nat \<Rightarrow> bool" where
  "cacheMiss c key now = (\<not> truthy (fst (cache_get c key now)))"

section \<open>Concrete inputs\<close>

text \<open>A network on which every attempt times out.\<close>

definition alwaysTimeout :: "nat \<Rightarrow> js_error + jsval" where
  "alwaysTimeout i = Inl (AxiosError (''timeout of 8000ms exceeded, attempt '' @ show_nat i))"

text \<open>Two readings of the clock and the random generator, and two provider items.\<close>

definition readingA :: reading where
  "readingA = \<lparr>dateNow = 1700000000000, mathRandom = ''0.25'',
               isoString = ''2023-11-14T22:13:20.000Z''\<rparr>"

definition readingB :: reading where
  "readingB = \<lparr>dateNow = 1700000000000, mathRandom = ''0.75'',
               isoString = ''2023-11-14T22:13:20.000Z''\<rparr>"

definition itemWithoutUrl :: jsval where
  "itemWithoutUrl = JObj [(''title'', JStr ''Monsoon arrives early'')]"

definition itemWithUrl :: jsval where
  "itemWithUrl = JObj [(''title'', JStr ''Monsoon arrives early''),
                       (''url'', JStr ''https://example.org/monsoon''),
                       (''publishedAt'', JStr ''2023-11-14T10:00:00Z'')]"

text \<open>
  A process just started: nothing cached, the canned articles as loaded. Requests
  without parameters, for a category, and for a page size.
\<close>

definition bootState :: state where
  "bootState = \<lparr>cache = [], news = HARDCODED_DATA_news (\<lambda>i. ''2024-01-01T00:00:00.000Z'')\<rparr>"

definition plainQuery :: query where
  "plainQuery = \<lparr>category = None, page = None, pageSize = None\<rparr>"

definition categoryQuery :: "string \<Rightarrow> query" where
  "categoryQuery c = \<lparr>category = Some c, page = None, pageSize = None\<rparr>"


definition plainLocalQuery :: localQuery where
  "plainLocalQuery = \<lparr>location = None, lpage = None, lpageSize = None\<rparr>"

text \<open>
  Stand-ins for the built-ins of the platform: the time value of three dates, the
  percent-encoding of the search phrases that occur, and a reading per item.
\<close>

definition demoDate :: "jsval \<Rightarrow> int option" where
  "demoDate v =
     (case v of
        JStr s \<Rightarrow> map_of [(''2024-03-01T08:00:00Z'', 1709280000000),
                          (''2024-03-02T08:00:00Z'', 1709366400000),
                          (''2024-03-03T08:00:00Z'', 1709452800000),
                          (''2024-03-04T12:00:00.000Z'', 1709553600000)] s
      | _ \<Rightarrow> None)"

definition demoEncode :: "jsval \<Rightarrow> string" where
  "demoEncode v =
     (case v of
        JStr s \<Rightarrow> concat (map (\<lambda>c. if c = CHR '' '' then ''%20'' else [c]) s)
      | JFun f \<Rightarrow> ''function%20'' @ f @ ''()%20%7B%20%5Bnative%20code%5D%20%7D''
      | _ \<Rightarrow> ''%5Bobject%20Object%5D'')"

definition demoReadings :: "nat \<Rightarrow> nat \<Rightarrow> reading" where
  "demoReadings i j = \<lparr>dateNow = 1709553600000 + j, mathRandom = ''0.'' @ show_nat (7 * i + j + 1),
                       isoString = ''2024-03-04T12:00:00.000Z''\<rparr>"

text \<open>A server with both providers configured, on a given network.\<close>

definition twoProviders :: "(string \<Rightarrow> nat \<Rightarrow> js_error + jsval) \<Rightarrow> env" where
  "twoProviders network =
     \<lparr>GNEWS_API_KEY = Some ''g-key'', GUARDIAN_API_KEY = Some ''u-key'', geminiModel = False,
      stdTTL = 300, clockGet = 1709553600000, clockSet = 1709553609000,
      isoNow = ''2024-03-04T12:00:00.000Z'', net = network, readings = demoReadings,
      dateValue = demoDate, encodeURIComponent = demoEncode, fault = None\<rparr>"

text \<open>A server without provider credentials; no network is reached.\<close>

definition noProviders :: env where
  "noProviders = (twoProviders (\<lambda>u i. Inl (AxiosError ''unreachable'')))
                   \<lparr>GNEWS_API_KEY := None, GUARDIAN_API_KEY := None\<rparr>"

text \<open>
  Networks on which GNews times out at every attempt and the Guardian answers at once:
  with three articles of distinct URLs; with two articles that have the same id and
  distinct URLs; with three articles that have no URL and no id.
\<close>

definition guardianAnswers :: "jsval list \<Rightarrow> string \<Rightarrow> nat \<Rightarrow> js_error + jsval" where
  "guardianAnswers results u i =
     (if take 16 u = ''https://gnews.io'' then Inl (AxiosError ''timeout of 8000ms exceeded'')
      else Inr (JObj [(''response'', JObj [(''status'', JStr ''ok''), (''results'', JArr results)])]))"

definition threeResults :: "jsval list" where
  "threeResults =
     [JObj [(''id'', JStr ''world/a''), (''webTitle'', JStr ''A''),
            (''webUrl'', JStr ''https://www.theguardian.com/world/a''),
            (''webPublicationDate'', JStr ''2024-03-01T08:00:00Z'')],
      JObj [(''id'', JStr ''world/b''), (''webTitle'', JStr ''B''),
            (''webUrl'', JStr ''https://www.theguardian.com/world/b''),
            (''webPublicationDate'', JStr ''2024-03-03T08:00:00Z'')],
      JObj [(''id'', JStr ''world/c''), (''webTitle'', JStr ''C''),
            (''webUrl'', JStr ''https://www.theguardian.com/world/c''),
            (''webPublicationDate'', JStr ''2024-03-02T08:00:00Z'')]]"

definition sameIdResults :: "jsval list" where
  "sameIdResults =
     [JObj [(''id'', JStr ''world/a''), (''webTitle'', JStr ''A''),
            (''webUrl'', JStr ''https://www.theguardian.com/world/a''),
            (''webPublicationDate'', JStr ''2024-03-01T08:00:00Z'')],
      JObj [(''id'', JStr ''world/a''), (''webTitle'', JStr ''A, updated''),
            (''webUrl'', JStr ''https://www.theguardian.com/world/a-updated''),
            (''webPublicationDate'', JStr ''2024-03-02T08:00:00Z'')]]"

definition noUrlResults :: "jsval list" where
  "noUrlResults =
     [JObj [(''webTitle'', JStr ''A''), (''webPublicationDate'', JStr ''2024-03-01T08:00:00Z'')],
      JObj [(''webTitle'', JStr ''B''), (''webPublicationDate'', JStr ''2024-03-03T08:00:00Z'')],
      JObj [(''webTitle'', JStr ''C''), (''webPublicationDate'', JStr ''2024-03-02T08:00:00Z'')]]"

text \<open>The two request URLs for the first page of general news on that server.\<close>

definition gnewsPlainUrl :: string where
  "gnewsPlainUrl =
     ''https://gnews.io/api/v4/search?q=latest%20news&lang=en&max=10&page=1&token=g-key''"

definition guardianPlainUrl :: string where
  "guardianPlainUrl =
     ''https://content.guardianapis.com/search?api-key=u-key&q=latest%20news&show-fields=trailText,thumbnail,bodyText&page=1&page-size=10''"

text \<open>What the normalisation makes of a Guardian item that has a title and a date only.\<close>

definition guardianArticle :: "jsval \<Rightarrow> string \<Rightarrow> jsval \<Rightarrow> string \<Rightarrow> jsval" where
  "guardianArticle i t u d =
     JObj [(''id'', i), (''title'', JStr t), (''snippet'', JStr []), (''url'', u),
           (''image'', placeholderImage), (''publishedAt'', JStr d),
           (''source'', JStr ''The Guardian''), (''category'', JStr ''general''),
           (''aiSummary'', JNull)]"

definition articleA :: jsval where
  "articleA = guardianArticle (JStr ''world/a'') ''A''
                (JStr ''https://www.theguardian.com/world/a'') ''2024-03-01T08:00:00Z''"

definition articleB :: jsval where
  "articleB = guardianArticle (JStr ''world/b'') ''B''
                (JStr ''https://www.theguardian.com/world/b'') ''2024-03-03T08:00:00Z''"

definition articleC :: jsval where
  "articleC = guardianArticle (JStr ''world/c'') ''C''
                (JStr ''https://www.theguardian.com/world/c'') ''2024-03-02T08:00:00Z''"

text \<open>The servers on those networks, and the three articles without URL as normalised.\<close>

definition serverThree :: env where
  "serverThree = twoProviders (guardianAnswers threeResults)"

definition serverSameId :: env where
  "serverSameId = twoProviders (guardianAnswers sameIdResults)"

definition serverNoUrl :: env where
  "serverNoUrl = twoProviders (guardianAnswers noUrlResults)"






text \<open>
  A server on which the runtime raises an exception inside the handler, and the same
  server a little later, within the lifetime of what it cached.
\<close>

definition faultyServer :: env where
  "faultyServer = serverThree\<lparr>fault := Some (InternalError ''unexpected failure inside the handler'')\<rparr>"

definition laterServer :: env where
  "laterServer = serverThree\<lparr>clockGet := 1709553700000, clockSet := 1709553709000\<rparr>"

section \<open>Auxiliary facts: the fetch loop\<close>

lemma fetchLoop_shape:
  "i \<le> retries \<Longrightarrow>
   \<exists>k. i \<le> k \<and> k \<le> retries
     \<and> snd (fetchLoop attempt u retries i)
         = concat (map (\<lambda>j. [Request u j 8000, Sleep ((j + 1) * 1000)]) [i..<k]) @ [Request u k 8000]
     \<and> fst (fetchLoop attempt u retries i) = attempt k
     \<and> (\<forall>j. i \<le> j \<and> j < k \<longrightarrow> isl (attempt j))
     \<and> (isl (attempt k) \<longrightarrow> k = retries)"
proof (induction attempt u retries i rule: fetchLoop.induct)
  case (1 attempt u retries i)
  show ?case
  proof (cases "attempt i")
    case (Inr d)
    then have "fetchLoop attempt u retries i = (Inr d, [Request u i 8000])"
      using "1.prems" by (simp add: fetchLoop.simps)
    with Inr show ?thesis
      by (intro exI[of _ i]) (auto simp: "1.prems")
  next
    case (Inl err)
    show ?thesis
    proof (cases "i = retries")
      case True
      then have "fetchLoop attempt u retries i = (Inl err, [Request u i 8000])"
        using Inl by (simp add: fetchLoop.simps)
      with Inl True show ?thesis
        by (intro exI[of _ i]) auto
    next
      case False
      then have lt: "Suc i \<le> retries" using "1.prems" by simp
      from "1.IH"[OF "1.prems" Inl False lt]
      obtain k where k: "Suc i \<le> k" "k \<le> retries"
        "snd (fetchLoop attempt u retries (Suc i))
           = concat (map (\<lambda>j. [Request u j 8000, Sleep ((j + 1) * 1000)]) [Suc i..<k]) @ [Request u k 8000]"
        "fst (fetchLoop attempt u retries (Suc i)) = attempt k"
        "\<forall>j. Suc i \<le> j \<and> j < k \<longrightarrow> isl (attempt j)"
        "isl (attempt k) \<longrightarrow> k = retries"
        by blast
      have unfold: "fetchLoop attempt u retries i =
          (fst (fetchLoop attempt u retries (Suc i)),
           Request u i 8000 # Sleep (1000 * (i + 1)) # snd (fetchLoop attempt u retries (Suc i)))"
        using Inl False "1.prems"
        by (subst fetchLoop.simps) (simp add: case_prod_unfold Let_def)
      have range: "[i..<k] = i # [Suc i..<k]"
        using k(1) by (simp add: upt_conv_Cons)
      have fails: "\<forall>j. i \<le> j \<and> j < k \<longrightarrow> isl (attempt j)"
      proof (intro allI impI)
        fix j assume "i \<le> j \<and> j < k"
        then have "j = i \<or> (Suc i \<le> j \<and> j < k)" by auto
        then show "isl (attempt j)" using Inl k(5) by auto
      qed
      show ?thesis
        using k(1,2,4,6) fails
        by (intro exI[of _ k]) (simp add: unfold k(3) range mult.commute)
    qed
  qed
qed

lemma fetchWithRetry_all_fail:
  assumes "\<forall>i \<le> retries. isl (attempt i)"
  shows "isl (fst (fetchWithRetry attempt u retries))"
proof -
  obtain k where "k \<le> retries" "fst (fetchLoop attempt u retries 0) = attempt k"
    using fetchLoop_shape[of 0 retries attempt u] by auto
  then show ?thesis using assms by (simp add: fetchWithRetry_def)
qed

section \<open>Auxiliary facts: normalisation\<close>

lemma truthy_js_or: "truthy (js_or a b) = (truthy a \<or> truthy b)"
  by (simp add: js_or_def)

lemma normalizeArticle_try_shape:
  "normalizeArticle_try rd source raw = Inr v \<Longrightarrow> isNormalizedArticle v"
  by (auto simp: normalizeArticle_try_def isNormalizedArticle_def articleKeys_def getProp_def
                 truthy_js_or placeholderImage_def
           split: if_splits sum.splits)

lemma normalizeArticle_returns:
  "\<exists>v. normalizeArticle rd source raw = Inr v \<and> (v = JNull \<or> isNormalizedArticle v)"
proof (cases "normalizeArticle_try rd source raw")
  case (Inl e)
  then show ?thesis by (simp add: normalizeArticle_def)
next
  case (Inr a)
  then show ?thesis
    using normalizeArticle_try_shape by (simp add: normalizeArticle_def)
qed

lemma mapThrowing_total:
  assumes "\<And>j a. \<exists>v. f j a = Inr v"
  shows "\<exists>vs. mapThrowing f i items = Inr vs \<and> length vs = length items"
proof (induction items arbitrary: i)
  case Nil
  show ?case by simp
next
  case (Cons a items)
  obtain v where v: "f i a = Inr v" using assms by blast
  obtain vs where vs: "mapThrowing f (Suc i) items = Inr vs" "length vs = length items"
    using Cons.IH by blast
  show ?case by (simp add: v vs)
qed

section \<open>Auxiliary facts: deduplication and sorting\<close>


lemma sameValueZero_JStr [simp]: "sameValueZero (JStr s) b = (b = JStr s)"
  by auto

lemma setHas_append [simp]: "setHas (seen @ [k]) key = (setHas seen key \<or> sameValueZero k key)"
  by (simp add: setHas_def)

lemma setHas_Nil [simp]: "setHas [] key = False"
  by (simp add: setHas_def)



lemma dedupFilter_fresh:
  "noSharedUrl xs \<Longrightarrow> list_all (\<lambda>a. \<not> setHas seen (getProp a ''url'')) xs \<Longrightarrow>
   dedupFilter seen xs = xs"
proof (induction xs arbitrary: seen)
  case Nil
  show ?case by simp
next
  case (Cons x xs)
  have "list_all (\<lambda>a. \<not> setHas (seen @ [getProp x ''url'']) (getProp a ''url'')) xs"
    using Cons.prems by (auto simp: list_all_iff)
  then have "dedupFilter (seen @ [getProp x ''url'']) xs = xs"
    using Cons.IH Cons.prems by simp
  then show ?case using Cons.prems by (simp add: Let_def)
qed


lemma dedupByUrl_fresh: "noSharedUrl xs \<Longrightarrow> dedupByUrl xs = xs"
  by (simp add: dedupByUrl_def dedupFilter_fresh list_all_iff)





lemma mset_insertSorted: "mset (insertSorted cmp x ys) = add_mset x (mset ys)"
  by (induction ys) simp_all

lemma mset_jsSort: "mset (jsSort cmp xs) = mset xs"
  by (induction xs) (simp_all add: jsSort_def mset_insertSorted)






section \<open>Auxiliary facts: the provider calls\<close>

lemma providerCall_failed:
  assumes "\<forall>i \<le> 2. isl (net e (url req) i)"
  shows "fst (providerCall e idx req) = []"
proof -
  have "isl (fst (fetchWithRetry (net e (url req)) (url req) 2))"
    using assms by (rule fetchWithRetry_all_fail)
  then show ?thesis
    by (cases "fetchWithRetry (net e (url req)) (url req) 2")
       (auto simp: providerCall_def split: sum.splits)
qed

lemma extractArticles_truthy:
  "extractArticles e idx req data = Inr arts \<Longrightarrow> list_all truthy arts"
  by (auto simp: extractArticles_def Let_def list_all_iff split: if_splits sum.splits jsval.splits)

lemma providerCall_truthy: "list_all truthy (fst (providerCall e idx req))"
  using extractArticles_truthy
  by (cases "fetchWithRetry (net e (url req)) (url req) 2")
     (auto simp: providerCall_def split: sum.splits)

lemma filter_truthy_providerCall:
  "filter truthy (fst (providerCall e idx req)) = fst (providerCall e idx req)"
  using providerCall_truthy[of e idx req] by (simp add: list_all_iff)

lemma mergeResponses_two:
  "fst (mergeResponses e [r0, r1]) = fst (providerCall e 0 r0) @ fst (providerCall e 1 r1)"
  by (simp add: mergeResponses_def filter_truthy_providerCall)


section \<open>Auxiliary facts: the cache and the fallback lookup\<close>

lemma cache_get_after_set:
  assumes "ttl = 0 \<or> t2 \<le> now + ttl * 1000"
  shows "cache_get (cache_set c key v now ttl) key t2 = (v, cache_set c key v now ttl)"
  using assms by (auto simp: cache_get_def cache_set_def)

lemma getProp_newsObject:
  "getProp (newsObject store) k =
     (case map_of store k of Some arts \<Rightarrow> JArr (map JObj arts) | None \<Rightarrow> object_prototype k)"
proof -
  have "map_of (map (\<lambda>(k, arts). (k, JArr (map JObj arts))) store) k
          = map_option (\<lambda>arts. JArr (map JObj arts)) (map_of store k)"
    by (induction store) auto
  then show ?thesis
    by (simp add: getProp_def newsObject_def split: option.splits)
qed

lemma newsFallback_own:
  "object_prototype cat = JUndefined \<Longrightarrow>
   newsFallback store cat =
     JArr (map JObj (case map_of store cat of
                       Some arts \<Rightarrow> arts
                     | None \<Rightarrow> (case map_of store ''general'' of Some g \<Rightarrow> g | None \<Rightarrow> [])))"
  by (simp add: newsFallback_def getProp_newsObject js_or_def object_prototype_def
           split: option.splits)

text \<open>
  The substitution agrees with the lookup it stands for: it yields an array exactly when
  the fallback value is one, and then the same articles.
\<close>

lemma substituteAndSort_agrees:
  "(case substituteAndSort e store cat of
      Inr (arts, store') \<Rightarrow> \<exists>ys. newsFallback store cat = JArr ys \<and> mset arts = mset ys
    | Inl err \<Rightarrow> \<not> (\<exists>ys. newsFallback store cat = JArr ys))"
proof (cases "map_of store cat")
  case (Some arts)
  then show ?thesis
    by (simp add: substituteAndSort_def newsFallback_def getProp_newsObject js_or_def mset_jsSort Let_def)
next
  case None
  show ?thesis
  proof (cases "truthy (object_prototype cat)")
    case True
    then have "\<not> (\<exists>ys. object_prototype cat = JArr ys)"
      by (auto simp: object_prototype_def split: if_splits)
    then show ?thesis
      using None True
      by (simp add: substituteAndSort_def newsFallback_def getProp_newsObject js_or_def Let_def)
  next
    case False
    then show ?thesis
      using None
      by (cases "map_of store ''general''")
         (simp_all add: substituteAndSort_def newsFallback_def getProp_newsObject js_or_def
            mset_jsSort object_prototype_def Let_def)
  qed
qed

text \<open>
  A category as \<^verbatim>\<open>getNews\<close> normalises it has no upper-case letter, so of the
  properties an object inherits it can only name \<^verbatim>\<open>constructor\<close> and \<^verbatim>\<open>__proto__\<close>.
\<close>

lemma upper_code: "c \<in> set ''ABCDEFGHIJKLMNOPQRSTUVWXYZ'' \<Longrightarrow> (of_char c :: nat) \<le> 90"
  by auto

lemma lower_code: "c \<in> set ''abcdefghijklmnopqrstuvwxyz'' \<Longrightarrow> 97 \<le> (of_char c :: nat)"
  by auto

lemma lowerChar_not_upper: "lowerChar c \<notin> set ''ABCDEFGHIJKLMNOPQRSTUVWXYZ''"
proof (cases "map_of (zip ''ABCDEFGHIJKLMNOPQRSTUVWXYZ'' ''abcdefghijklmnopqrstuvwxyz'') c")
  case None
  then have "c \<notin> set ''ABCDEFGHIJKLMNOPQRSTUVWXYZ''"
    by (subst (asm) map_of_zip_is_None) simp_all
  moreover have "lowerChar c = c"
    unfolding lowerChar_def None by simp
  ultimately show ?thesis by (simp only: simp_thms)
next
  case (Some l)
  then have "(c, l) \<in> set (zip ''ABCDEFGHIJKLMNOPQRSTUVWXYZ'' ''abcdefghijklmnopqrstuvwxyz'')"
    by (rule map_of_SomeD)
  then have "l \<in> set ''abcdefghijklmnopqrstuvwxyz''"
    by (rule set_zip_rightD)
  then have "l \<notin> set ''ABCDEFGHIJKLMNOPQRSTUVWXYZ''"
    using lower_code[of l] upper_code[of l] by linarith
  moreover have "lowerChar c = l"
    unfolding lowerChar_def Some by simp
  ultimately show ?thesis by (simp only: simp_thms)
qed


lemma set_trim: "set (trim s) \<subseteq> set s"
proof -
  have "set (dropWhile isSpace (rev (dropWhile isSpace s))) \<subseteq> set (rev (dropWhile isSpace s))"
    by (meson set_dropWhileD subsetI)
  moreover have "set (dropWhile isSpace s) \<subseteq> set s"
    by (meson set_dropWhileD subsetI)
  ultimately show ?thesis by (auto simp: trim_def)
qed

lemma newsCategory_no_upper:
  assumes "c \<in> set (newsCategory q)"
  shows "c \<notin> set ''ABCDEFGHIJKLMNOPQRSTUVWXYZ''"
proof -
  have "c \<in> set (toLowerCase (orDefault (category q) ''general''))"
    using assms set_trim by (auto simp: newsCategory_def)
  then obtain d where "c = lowerChar d" by (auto simp: toLowerCase_def)
  then show ?thesis using lowerChar_not_upper by (simp only: simp_thms)
qed

lemma inherited_names_have_upper:
  assumes "k \<in> set [''toString'', ''toLocaleString'', ''valueOf'', ''hasOwnProperty'',
                      ''isPrototypeOf'', ''propertyIsEnumerable'', ''__defineGetter__'',
                      ''__defineSetter__'', ''__lookupGetter__'', ''__lookupSetter__'']"
  shows "\<exists>c \<in> set k. c \<in> set ''ABCDEFGHIJKLMNOPQRSTUVWXYZ''"
proof -
  have "CHR ''S'' \<in> set k \<or> CHR ''L'' \<in> set k \<or> CHR ''O'' \<in> set k \<or> CHR ''P'' \<in> set k
        \<or> CHR ''E'' \<in> set k \<or> CHR ''G'' \<in> set k"
    using assms by auto
  then show ?thesis by auto
qed

lemma newsCategory_inherited:
  assumes "object_prototype (newsCategory q) \<noteq> JUndefined"
  shows "newsCategory q = ''constructor'' \<or> newsCategory q = ''__proto__''"
proof (rule ccontr)
  assume n: "\<not> (newsCategory q = ''constructor'' \<or> newsCategory q = ''__proto__'')"
  have "newsCategory q \<in> set [''toString'', ''toLocaleString'', ''valueOf'', ''hasOwnProperty'',
                        ''isPrototypeOf'', ''propertyIsEnumerable'', ''__defineGetter__'',
                        ''__defineSetter__'', ''__lookupGetter__'', ''__lookupSetter__'']"
    using assms n unfolding object_prototype_def by (metis (full_types))
  then have "\<exists>c \<in> set (newsCategory q). c \<in> set ''ABCDEFGHIJKLMNOPQRSTUVWXYZ''"
    by (rule inherited_names_have_upper)
  then show False using newsCategory_no_upper by blast
qed

section \<open>Auxiliary facts: the handlers\<close>

lemma dataItems_json [simp]:
  "dataItems (json b) = (case map_of b ''data'' of Some (JArr xs) \<Rightarrow> xs | _ \<Rightarrow> [])"
  by (simp add: dataItems_def json_def)

lemma getNews_status: "status (resp (getNews e st q)) = 200"
  by (auto simp: getNews_def getNews_try_def json_def Let_def case_prod_unfold
           split: option.splits sum.splits prod.splits if_splits)

lemma getNews_live:
  assumes "fault e = None"
    and "cacheMiss (cache st) (newsCacheKey q) (clockGet e)"
    and "newsRequests e q \<noteq> []"
    and "newsLive e q \<noteq> []"
  shows "getNews e st q =
           \<lparr>resp = json [(''ok'', JBool True), (''fromCache'', JBool False),
                 (''aiEnabled'', JBool (geminiModel e)),
                 (''category'', JStr (newsCategory q)),
                 (''total'', JNum (Finite (real (length
                     (sliceTo (newsPageSize q) (jsSort (dateDiff (dateValue e)) (newsLive e q))))))),
                 (''page'', numVal (newsPage q)), (''pageSize'', numVal (newsPageSize q)),
                 (''data'', JArr (sliceTo (newsPageSize q)
                                    (jsSort (dateDiff (dateValue e)) (newsLive e q))))],
             after = \<lparr>cache = cache_set (snd (cache_get (cache st) (newsCacheKey q) (clockGet e)))
                                (newsCacheKey q)
                                (JArr (sliceTo (newsPageSize q)
                                    (jsSort (dateDiff (dateValue e)) (newsLive e q))))
                                (clockSet e) (stdTTL e),
                      news = news st\<rparr>,
             log = snd (mergeResponses e (newsRequests e q))\<rparr>"
  using assms
  by (simp add: getNews_def getNews_try_def Let_def case_prod_unfold newsLive_def cacheMiss_def)

lemma getNews_try_live:
  assumes "fault e = None"
    and "cacheMiss (cache st) (newsCacheKey q) (clockGet e)"
    and "newsRequests e q \<noteq> []"
    and "newsLive e q \<noteq> []"
  shows "getNews_try e st q = Inr (getNews e st q)"
  using assms
  by (simp add: getNews_def getNews_try_def Let_def case_prod_unfold newsLive_def cacheMiss_def)

lemma getNews_without_credentials:
  assumes "fault e = None"
    and "cacheMiss (cache st) (newsCacheKey q) (clockGet e)"
    and "newsRequests e q = []"
  shows "resp (getNews e st q) =
           json [(''ok'', JBool True), (''fromCache'', JBool False), (''isFallback'', JBool True),
                 (''category'', JStr (newsCategory q)),
                 (''data'', newsFallback (news st) (newsCategory q))]"
  using assms
  by (simp add: getNews_def getNews_try_def Let_def case_prod_unfold cacheMiss_def)

lemma getNews_hit:
  assumes "fault e = None"
    and "cache_get (cache st) (newsCacheKey q) (clockGet e) = (v, c)"
    and "truthy v"
  shows "resp (getNews e st q) =
           json [(''ok'', JBool True), (''fromCache'', JBool True),
                 (''aiEnabled'', JBool (geminiModel e)), (''category'', JStr (newsCategory q)),
                 (''data'', v)]"
  using assms by (simp add: getNews_def getNews_try_def Let_def)

lemma getNews_try_aggregated:
  assumes "fault e = None"
    and "cacheMiss (cache st) (newsCacheKey q) (clockGet e)"
    and "newsRequests e q \<noteq> []"
    and "getNews_try e st q = Inr out"
  shows "\<exists>limited c1. map_of (body (resp out)) ''data'' = Some (JArr limited)
           \<and> cache (after out) = cache_set c1 (newsCacheKey q) (JArr limited) (clockSet e) (stdTTL e)"
  using assms
  by (auto simp: getNews_try_def Let_def case_prod_unfold cacheMiss_def json_def
           split: if_splits sum.splits)




section \<open>Auxiliary facts: the route\<close>





section \<open>Evaluating the concrete inputs\<close>

lemmas string_defs = toLowerCase_def lowerChar_def trim_def isSpace_def orDefault_def
  js_parseInt_def isDigit_def digitsValue_def mathMax_def mathMin_def numText_def show_int_def
  show_nat.simps

lemmas adapter_defs = extractArticles_def js_get_def nullish_def getProp_def opt_chain_def
  normalizeArticle_def normalizeArticle_try_def guardianSnippet_def js_or_def
  object_prototype_def

lemma plain_params:
  "newsCategory plainQuery = ''general''"
  "newsPage plainQuery = Some 1"
  "newsPageSize plainQuery = Some 10"
  "newsCacheKey plainQuery = ''news:general:p1:s10''"
  by (simp_all add: newsCacheKey_def newsCategory_def newsPage_def newsPageSize_def plainQuery_def string_defs Let_def)

lemma plain_requests:
  "newsRequests (twoProviders network) plainQuery =
     [\<lparr>provider = ''gnews'', url = gnewsPlainUrl\<rparr>,
      \<lparr>provider = ''guardian'', url = guardianPlainUrl\<rparr>]"
  by (simp add: newsRequests_def plain_params buildAPIRequests_def twoProviders_def configured_def
       CATEGORY_MAP_def getProp_def js_or_def demoEncode_def string_defs gnewsPlainUrl_def guardianPlainUrl_def)

lemma guardianAnswers_gnews:
  "guardianAnswers rs gnewsPlainUrl i = Inl (AxiosError ''timeout of 8000ms exceeded'')"
  by (simp add: guardianAnswers_def gnewsPlainUrl_def)

lemma guardianAnswers_guardian:
  "guardianAnswers rs guardianPlainUrl i
     = Inr (JObj [(''response'', JObj [(''status'', JStr ''ok''), (''results'', JArr rs)])])"
  by (simp add: guardianAnswers_def guardianPlainUrl_def)

lemma twoProviders_simps [simp]:
  "fault (twoProviders n) = None" "dateValue (twoProviders n) = demoDate"
  "geminiModel (twoProviders n) = False" "net (twoProviders n) = n"
  by (simp_all add: twoProviders_def)

lemma server_simps [simp]:
  "fault serverNoUrl = None" "fault serverSameId = None" "fault serverThree = None"
  "dateValue serverNoUrl = demoDate" "dateValue serverSameId = demoDate" "dateValue serverThree = demoDate"
  by (simp_all add: serverNoUrl_def serverSameId_def serverThree_def)

lemma server_requests:
  "newsRequests serverNoUrl plainQuery \<noteq> []" "newsRequests serverSameId plainQuery \<noteq> []"
  "newsRequests serverThree plainQuery \<noteq> []"
  by (simp_all add: serverNoUrl_def serverSameId_def serverThree_def plain_requests)

lemma boot_miss: "cacheMiss (cache bootState) key now"
  by (simp add: cacheMiss_def bootState_def cache_get_def)

lemma noProviders_requests: "newsRequests noProviders q = []"
  by (simp add: newsRequests_def buildAPIRequests_def noProviders_def twoProviders_def configured_def)

lemma constructor_params:
  "newsCategory (categoryQuery ''constructor'') = ''constructor''"
  "newsCategory (categoryQuery ''__proto__'') = ''__proto__''"
  "newsCategory (categoryQuery ''technology'') = ''technology''"
  by (simp_all add: newsCategory_def categoryQuery_def string_defs)

lemma boot_sports:
  "newsFallback (news bootState) ''sports''
     = JArr (map JObj (fallback_sports (\<lambda>i. ''2024-01-01T00:00:00.000Z'')))"
  by (simp add: newsFallback_own object_prototype_def bootState_def HARDCODED_DATA_news_def)

lemma gnews_call_fails:
  "fst (providerCall (twoProviders (guardianAnswers rs)) 0 \<lparr>provider = ''gnews'', url = gnewsPlainUrl\<rparr>) = []"
  by (rule providerCall_failed) (simp add: guardianAnswers_gnews)

lemma plain_merged:
  "fst (mergeResponses (twoProviders (guardianAnswers rs)) (newsRequests (twoProviders (guardianAnswers rs)) plainQuery))
    = fst (providerCall (twoProviders (guardianAnswers rs)) (Suc 0) \<lparr>provider = ''guardian'', url = guardianPlainUrl\<rparr>)"
  by (simp add: plain_requests mergeResponses_two gnews_call_fails)

lemma guardian_call_three:
  "fst (providerCall (twoProviders (guardianAnswers threeResults)) 1
          \<lparr>provider = ''guardian'', url = guardianPlainUrl\<rparr>)
     = [articleA, articleB, articleC]"
  by (simp add: providerCall_def fetchWithRetry_def fetchLoop.simps twoProviders_def
        guardianAnswers_guardian adapter_defs threeResults_def articleA_def articleB_def
        articleC_def guardianArticle_def)

lemma abc_noSharedUrl: "noSharedUrl [articleA, articleB, articleC]"
  by (simp add: articleA_def articleB_def articleC_def guardianArticle_def getProp_def)

lemma three_live: "newsLive serverThree plainQuery = [articleA, articleB, articleC]"
  using plain_merged[of threeResults] guardian_call_three abc_noSharedUrl
  by (simp add: newsLive_def serverThree_def dedupByUrl_fresh)

lemma three_data:
  "map_of (body (resp (getNews serverThree bootState plainQuery))) ''data''
     = Some (JArr [articleB, articleC, articleA])"
  by (simp add: getNews_live boot_miss server_requests three_live plain_params sliceTo_def
       jsSort_def json_def dateDiff_def demoDate_def articleA_def articleB_def articleC_def
       guardianArticle_def getProp_def)
























section \<open>Internal errors of the read paths\<close>

text \<open>
  C1, as stated, fails for local news: the \<^verbatim>\<open>catch\<close> clause of \<^verbatim>\<open>getLocalNews\<close>
  answers an internal error with status 500 and \<open>ok = false\<close>.
\<close>

theorem local_news_server_error_counterexample:
  "status (resp (getLocalNews faultyServer bootState plainLocalQuery)) = 500
   \<and> map_of (body (resp (getLocalNews faultyServer bootState plainLocalQuery))) ''ok''
       = Some (JBool False)"
  by (simp add: getLocalNews_def getLocalNews_try_def faultyServer_def statusJson_def)

text \<open>
  C1, amended. Every response of \<^verbatim>\<open>getNews\<close> has status 200. When its \<^verbatim>\<open>try\<close>
  block ends with an exception, the response is \<open>ok = true\<close> and \<open>isFallback = true\<close>
  with the diagnostic \<open>error\<close> property and the fallback for the lower-cased category,
  which for a category that does not name an inherited object property is the list the
  store holds for it, or the general list. When the \<^verbatim>\<open>try\<close> block of
  \<^verbatim>\<open>getLocalNews\<close> ends with an exception, the response has status 500, \<open>ok = false\<close>,
  an error message and empty data.
\<close>

theorem read_paths_on_internal_error:
  "status (resp (getNews e st q)) = 200
   \<and> (getNews_try e st q = Inl (err, st1, tr) \<longrightarrow>
        resp (getNews e st q) =
          json [(''ok'', JBool True), (''isFallback'', JBool True),
                (''error'', JStr ''Using fallback data due to server error''),
                (''category'', JStr (toLowerCase (orDefault (category q) ''general''))),
                (''data'', newsFallback (news st1) (toLowerCase (orDefault (category q) ''general'')))])
   \<and> (object_prototype c = JUndefined \<longrightarrow>
        newsFallback store c =
          JArr (map JObj (case map_of store c of
                            Some arts \<Rightarrow> arts
                          | None \<Rightarrow> (case map_of store ''general'' of Some g \<Rightarrow> g | None \<Rightarrow> []))))
   \<and> (getLocalNews_try e' st' lq = Inl (err', st1', tr') \<longrightarrow>
        resp (getLocalNews e' st' lq) =
          statusJson 500 [(''ok'', JBool False), (''error'', JStr ''Failed to fetch local news''),
                          (''location'', JStr (orDefault (location lq) ''Delhi'')),
                          (''data'', JArr [])])"
proof -
  have news: "getNews_try e st q = Inl (err, st1, tr) \<longrightarrow>
        resp (getNews e st q) =
          json [(''ok'', JBool True), (''isFallback'', JBool True),
                (''error'', JStr ''Using fallback data due to server error''),
                (''category'', JStr (toLowerCase (orDefault (category q) ''general''))),
                (''data'', newsFallback (news st1) (toLowerCase (orDefault (category q) ''general'')))]"
    by (simp add: getNews_def Let_def)
  have local: "getLocalNews_try e' st' lq = Inl (err', st1', tr') \<longrightarrow>
        resp (getLocalNews e' st' lq) =
          statusJson 500 [(''ok'', JBool False), (''error'', JStr ''Failed to fetch local news''),
                          (''location'', JStr (orDefault (location lq) ''Delhi'')),
                          (''data'', JArr [])]"
    by (simp add: getLocalNews_def)
  show ?thesis
    using getNews_status[of e st q] newsFallback_own[of c store] news local by blast
qed

theorem read_paths_on_internal_error_witness:
  "getNews_try faultyServer bootState (categoryQuery ''Sports'')
     = Inl (InternalError ''unexpected failure inside the handler'', bootState, [])
   \<and> resp (getNews faultyServer bootState (categoryQuery ''Sports''))
       = json [(''ok'', JBool True), (''isFallback'', JBool True),
               (''error'', JStr ''Using fallback data due to server error''),
               (''category'', JStr ''sports''),
               (''data'', JArr (map JObj (fallback_sports (\<lambda>i. ''2024-01-01T00:00:00.000Z''))))]
   \<and> object_prototype ''sports'' = JUndefined
   \<and> getLocalNews_try faultyServer bootState plainLocalQuery
       = Inl (InternalError ''unexpected failure inside the handler'', bootState, [])
   \<and> resp (getLocalNews faultyServer bootState plainLocalQuery)
       = statusJson 500 [(''ok'', JBool False), (''error'', JStr ''Failed to fetch local news''),
                         (''location'', JStr ''Delhi''), (''data'', JArr [])]"
proof -
  have t: "getNews_try faultyServer bootState (categoryQuery ''Sports'')
     = Inl (InternalError ''unexpected failure inside the handler'', bootState, [])"
    by (simp add: getNews_try_def faultyServer_def)
  have l: "getLocalNews_try faultyServer bootState plainLocalQuery
       = Inl (InternalError ''unexpected failure inside the handler'', bootState, [])"
    by (simp add: getLocalNews_try_def faultyServer_def)
  have c: "toLowerCase (orDefault (category (categoryQuery ''Sports'')) ''general'') = ''sports''"
    by (simp add: categoryQuery_def string_defs)
  have p: "object_prototype ''sports'' = JUndefined"
    by (simp add: object_prototype_def)
  have d: "orDefault (location plainLocalQuery) ''Delhi'' = ''Delhi''"
    by (simp add: plainLocalQuery_def orDefault_def)
  from read_paths_on_internal_error[of faultyServer bootState "categoryQuery ''Sports''"
          "InternalError ''unexpected failure inside the handler''" bootState "[]"
          "''sports''" "news bootState" faultyServer bootState plainLocalQuery
          "InternalError ''unexpected failure inside the handler''" bootState "[]"]
  show ?thesis
    using t l p by (simp add: c d boot_sports)
qed

section \<open>Uniqueness within a result set\<close>




section \<open>Failure of one provider\<close>




section \<open>The fallback without provider credentials\<close>

text \<open>
  C4 holds for every category other than \<^verbatim>\<open>constructor\<close> and \<^verbatim>\<open>__proto__\<close>:
  without credentials and on a just started process the data are the non-empty list of
  the category, or the general list when the store has none for it; for
  \<^verbatim>\<open>technology\<close> they are its two canned articles.
\<close>

lemma fallback_for_known_and_unknown_categories:
  assumes "fault e = None"
    and "cacheMiss (cache st) (newsCacheKey q) (clockGet e)"
    and "newsRequests e q = []"
    and "newsCategory q \<noteq> ''constructor''" "newsCategory q \<noteq> ''__proto__''"
    and "news st = HARDCODED_DATA_news loadedAt"
  shows "\<exists>arts. arts \<noteq> []
           \<and> arts = (case map_of (HARDCODED_DATA_news loadedAt) (newsCategory q) of
                       Some known \<Rightarrow> known | None \<Rightarrow> fallback_general loadedAt)
           \<and> resp (getNews e st q) =
               json [(''ok'', JBool True), (''fromCache'', JBool False), (''isFallback'', JBool True),
                     (''category'', JStr (newsCategory q)), (''data'', JArr (map JObj arts))]"
proof -
  have g: "map_of (HARDCODED_DATA_news loadedAt) ''general'' = Some (fallback_general loadedAt)"
    by (simp add: HARDCODED_DATA_news_def)
  have ne: "\<forall>k arts. map_of (HARDCODED_DATA_news loadedAt) k = Some arts \<longrightarrow> arts \<noteq> []"
    by (auto simp: HARDCODED_DATA_news_def fallback_general_def fallback_india_def
         fallback_world_def fallback_business_def fallback_technology_def fallback_sports_def
         fallback_environment_def fallback_education_def fallback_health_def fallback_science_def
         fallback_economy_def fallback_legal_def fallback_culture_def split: if_splits)
  have gne: "fallback_general loadedAt \<noteq> []" using g ne by blast
  have own: "object_prototype (newsCategory q) = JUndefined"
    using newsCategory_inherited[of q] assms(4,5) by blast
  show ?thesis
    using own ne gne
    by (auto simp: getNews_without_credentials[OF assms(1-3)] assms(6) newsFallback_own g
             split: option.splits)
qed

lemma technology_without_credentials:
  "resp (getNews noProviders bootState (categoryQuery ''technology''))
     = json [(''ok'', JBool True), (''fromCache'', JBool False), (''isFallback'', JBool True),
             (''category'', JStr ''technology''),
             (''data'', JArr (map JObj (fallback_technology (\<lambda>i. ''2024-01-01T00:00:00.000Z''))))]
   \<and> length (fallback_technology (\<lambda>i. ''2024-01-01T00:00:00.000Z'')) = 2"
proof -
  have f: "fault noProviders = None" by (simp add: noProviders_def twoProviders_def)
  have "newsFallback (news bootState) ''technology''
          = JArr (map JObj (fallback_technology (\<lambda>i. ''2024-01-01T00:00:00.000Z'')))"
    by (simp add: newsFallback_own object_prototype_def bootState_def HARDCODED_DATA_news_def)
  then show ?thesis
    by (simp add: getNews_without_credentials[OF f boot_miss noProviders_requests] constructor_params
          fallback_technology_def)
qed

text \<open>
  C4 fails for the categories \<^verbatim>\<open>constructor\<close> and \<^verbatim>\<open>__proto__\<close>, which pass the
  validation of the router: the lookup \<^verbatim>\<open>HARDCODED_DATA.news[category]\<close> finds the
  inherited property, which is truthy, so neither the general list nor any list is
  served. (Serialised to JSON, a function-valued \<open>data\<close> is left out of the response.)
\<close>

theorem inherited_property_served_as_fallback:
  "resp (getNews noProviders bootState (categoryQuery ''constructor''))
     = json [(''ok'', JBool True), (''fromCache'', JBool False), (''isFallback'', JBool True),
             (''category'', JStr ''constructor''), (''data'', JFun ''Object'')]
   \<and> resp (getNews noProviders bootState (categoryQuery ''__proto__''))
     = json [(''ok'', JBool True), (''fromCache'', JBool False), (''isFallback'', JBool True),
             (''category'', JStr ''__proto__''), (''data'', JObj [])]"
proof -
  have f: "fault noProviders = None" by (simp add: noProviders_def twoProviders_def)
  have "newsFallback (news bootState) ''constructor'' = JFun ''Object''"
    by (simp add: newsFallback_def getProp_newsObject object_prototype_def js_or_def bootState_def
          HARDCODED_DATA_news_def)
  moreover have "newsFallback (news bootState) ''__proto__'' = JObj []"
    by (simp add: newsFallback_def getProp_newsObject object_prototype_def js_or_def bootState_def
          HARDCODED_DATA_news_def)
  ultimately show ?thesis
    by (simp add: getNews_without_credentials[OF f boot_miss noProviders_requests] constructor_params)
qed

section \<open>The cache across two calls\<close>

text \<open>
  C5, as stated, fails: without provider credentials \<^verbatim>\<open>getNews\<close> answers from the
  fallback and returns before it writes the cache, so a second identical call is again
  answered with \<open>fromCache = false\<close>.
\<close>

theorem second_call_not_cached_counterexample:
  "map_of (body (resp (getNews noProviders (after (getNews noProviders bootState plainQuery)) plainQuery)))
     ''fromCache'' = Some (JBool False)"
proof -
  have f: "fault noProviders = None" by (simp add: noProviders_def twoProviders_def)
  have "after (getNews noProviders bootState plainQuery) = bootState"
    by (simp add: getNews_def getNews_try_def f noProviders_requests Let_def case_prod_unfold
          bootState_def cache_get_def)
  then show ?thesis
    by (simp add: getNews_without_credentials[OF f boot_miss noProviders_requests] json_def)
qed

text \<open>
  C5, amended. When a call of \<^verbatim>\<open>getNews\<close> finds nothing usable in the cache, has a
  provider configured and completes its aggregation without an internal error, then a
  second call with the same parameters, made before the entry written by the first one
  expires (no later than the standard TTL after it was written, or at any time when the
  standard TTL is 0), reports \<open>fromCache = true\<close> and returns the same list of articles
  as the first call.
\<close>

theorem second_call_served_from_cache:
  assumes first: "fault e1 = None" "cacheMiss (cache st) (newsCacheKey q) (clockGet e1)"
                 "newsRequests e1 q \<noteq> []" "getNews_try e1 st q = Inr out1"
    and second: "fault e2 = None"
    and window: "stdTTL e1 = 0 \<or> clockGet e2 \<le> clockSet e1 + stdTTL e1 * 1000"
  shows "getNews e1 st q = out1
         \<and> map_of (body (resp (getNews e2 (after out1) q))) ''fromCache'' = Some (JBool True)
         \<and> map_of (body (resp (getNews e2 (after out1) q))) ''data''
             = map_of (body (resp out1)) ''data''"
proof -
  obtain limited c1 where d: "map_of (body (resp out1)) ''data'' = Some (JArr limited)"
    and c: "cache (after out1) = cache_set c1 (newsCacheKey q) (JArr limited) (clockSet e1) (stdTTL e1)"
    using getNews_try_aggregated[OF first] by blast
  have hit: "cache_get (cache (after out1)) (newsCacheKey q) (clockGet e2)
          = (JArr limited, cache_set c1 (newsCacheKey q) (JArr limited) (clockSet e1) (stdTTL e1))"
    unfolding c using window by (rule cache_get_after_set)
  have "resp (getNews e2 (after out1) q) =
           json [(''ok'', JBool True), (''fromCache'', JBool True),
                 (''aiEnabled'', JBool (geminiModel e2)), (''category'', JStr (newsCategory q)),
                 (''data'', JArr limited)]"
    using getNews_hit[OF second hit] by simp
  then show ?thesis
    using d first(4) by (simp add: json_def getNews_def)
qed

theorem second_call_served_from_cache_witness:
  "cacheMiss (cache bootState) (newsCacheKey plainQuery) (clockGet serverThree)
   \<and> newsRequests serverThree plainQuery \<noteq> []
   \<and> getNews_try serverThree bootState plainQuery = Inr (getNews serverThree bootState plainQuery)
   \<and> clockGet laterServer \<le> clockSet serverThree + stdTTL serverThree * 1000
   \<and> map_of (body (resp (getNews laterServer (after (getNews serverThree bootState plainQuery))
                          plainQuery))) ''fromCache'' = Some (JBool True)
   \<and> map_of (body (resp (getNews laterServer (after (getNews serverThree bootState plainQuery))
                          plainQuery))) ''data'' = Some (JArr [articleB, articleC, articleA])"
proof -
  have f1: "fault serverThree = None" by simp
  have f2: "fault laterServer = None" by (simp add: laterServer_def)
  have t: "getNews_try serverThree bootState plainQuery = Inr (getNews serverThree bootState plainQuery)"
    by (rule getNews_try_live[OF f1 boot_miss server_requests(3)]) (simp add: three_live)
  have w: "stdTTL serverThree = 0 \<or> clockGet laterServer \<le> clockSet serverThree + stdTTL serverThree * 1000"
    by (simp add: laterServer_def serverThree_def twoProviders_def)
  have w': "clockGet laterServer \<le> clockSet serverThree + stdTTL serverThree * 1000"
    by (simp add: laterServer_def serverThree_def twoProviders_def)
  from second_call_served_from_cache[OF f1 boot_miss server_requests(3) t f2 w]
  show ?thesis
    using t w' boot_miss server_requests(3) by (simp add: three_data)
qed

section \<open>Determinism of the normalisation\<close>

text \<open>
  C6, as stated, fails: an item without a URL gets an id made of the clock and of a
  random number, so normalising the same item twice gives two different articles.
\<close>

theorem normalizeArticle_clock_random_counterexample:
  "normalizeArticle readingA (JStr ''gnews'') itemWithoutUrl
     \<noteq> normalizeArticle readingB (JStr ''gnews'') itemWithoutUrl"
  by (simp add: normalizeArticle_def normalizeArticle_try_def itemWithoutUrl_def readingA_def
        readingB_def nullish_def getProp_def object_prototype_def js_or_def)

text \<open>
  C6, amended. For every provider identifier and every raw item that carries the field
  its id is derived from and a publication date, the output of \<^verbatim>\<open>normalizeArticle\<close>
  does not depend on the clock or the random generator: normalising the item twice
  yields identical output.
\<close>

theorem normalizeArticle_deterministic:
  "carriesIdAndDate source raw \<Longrightarrow>
   normalizeArticle rd1 source raw = normalizeArticle rd2 source raw"
  by (auto simp: carriesIdAndDate_def normalizeArticle_def normalizeArticle_try_def js_or_def
           split: if_splits sum.splits)

theorem normalizeArticle_deterministic_witness:
  "carriesIdAndDate (JStr ''gnews'') itemWithUrl
   \<and> readingA \<noteq> readingB
   \<and> normalizeArticle readingA (JStr ''gnews'') itemWithUrl
       = normalizeArticle readingB (JStr ''gnews'') itemWithUrl"
proof -
  have c: "carriesIdAndDate (JStr ''gnews'') itemWithUrl"
    by (simp add: carriesIdAndDate_def itemWithUrl_def getProp_def)
  have d: "readingA \<noteq> readingB"
    by (simp add: readingA_def readingB_def)
  show ?thesis
    using c d normalizeArticle_deterministic[OF c, of readingA readingB] by simp
qed

section \<open>Bounds on the page size\<close>



section \<open>The retry policy\<close>

text \<open>
  C8. \<^verbatim>\<open>fetchWithRetry(url, options, maxRetries)\<close> makes at most \<open>maxRetries + 1\<close>
  attempts, each with a timeout of 8000 milliseconds. Its trace is that of some
  \<open>k \<le> maxRetries\<close>: the attempts with loop index below \<open>k\<close> failed, and after the
  failure of attempt number \<open>j + 1\<close> (loop index \<open>j\<close>) it waited \<open>(j + 1) * 1000\<close>
  milliseconds before the next one; its result is the outcome of attempt \<open>k\<close>. When
  every attempt fails, the error surfaced is the one of the final attempt.
\<close>

theorem fetchWithRetry_policy:
  "length (filter is_request (snd (fetchWithRetry attempt u retries))) \<le> retries + 1
   \<and> (\<forall>ev \<in> set (snd (fetchWithRetry attempt u retries)). is_request ev \<longrightarrow> timeout_ms ev = 8000)
   \<and> (\<exists>k \<le> retries. (\<forall>j < k. isl (attempt j))
          \<and> snd (fetchWithRetry attempt u retries) = backoffTrace u k
          \<and> fst (fetchWithRetry attempt u retries) = attempt k)
   \<and> ((\<forall>j \<le> retries. isl (attempt j)) \<longrightarrow>
          fst (fetchWithRetry attempt u retries) = attempt retries)"
proof -
  obtain k where k: "k \<le> retries"
      "snd (fetchWithRetry attempt u retries) = backoffTrace u k"
      "fst (fetchWithRetry attempt u retries) = attempt k"
      "\<forall>j < k. isl (attempt j)"
      "isl (attempt k) \<longrightarrow> k = retries"
    using fetchLoop_shape[of 0 retries attempt u]
    by (auto simp: fetchWithRetry_def backoffTrace_def)
  have count: "length (filter is_request (backoffTrace u k)) = k + 1"
    unfolding backoffTrace_def by (induction k) simp_all
  have timeouts: "\<forall>ev \<in> set (backoffTrace u k). is_request ev \<longrightarrow> timeout_ms ev = 8000"
    unfolding backoffTrace_def by auto
  have final: "(\<forall>j \<le> retries. isl (attempt j)) \<longrightarrow>
      fst (fetchWithRetry attempt u retries) = attempt retries"
    using k(1,3,5) by auto
  show ?thesis
    using k(1,2,3,4) count timeouts final by auto
qed

theorem fetchWithRetry_policy_witness:
  "isl (alwaysTimeout 0) \<and> isl (alwaysTimeout 1) \<and> isl (alwaysTimeout 2)
   \<and> fetchWithRetry alwaysTimeout ''u'' 2
       = (Inl (AxiosError ''timeout of 8000ms exceeded, attempt 2''),
          [Request ''u'' 0 8000, Sleep 1000, Request ''u'' 1 8000, Sleep 2000, Request ''u'' 2 8000])"
proof -
  have fails: "\<forall>j \<le> 2. isl (alwaysTimeout j)"
    by (simp add: alwaysTimeout_def)
  have last: "alwaysTimeout 2 = Inl (AxiosError ''timeout of 8000ms exceeded, attempt 2'')"
    by (simp add: alwaysTimeout_def show_nat.simps)
  from fetchWithRetry_policy[of alwaysTimeout "''u''" 2]
  obtain k where k: "k \<le> 2" "\<forall>j < k. isl (alwaysTimeout j)"
      "snd (fetchWithRetry alwaysTimeout ''u'' 2) = backoffTrace ''u'' k"
      "fst (fetchWithRetry alwaysTimeout ''u'' 2) = alwaysTimeout k"
    and fin: "fst (fetchWithRetry alwaysTimeout ''u'' 2) = alwaysTimeout 2"
    using fails by blast
  have "alwaysTimeout k = alwaysTimeout 2" using k(4) fin by simp
  then have "show_nat k = show_nat 2" by (simp add: alwaysTimeout_def)
  moreover have "k = 0 \<or> k = 1 \<or> k = 2" using k(1) by auto
  ultimately have "k = 2" by (auto simp: show_nat.simps)
  then have "snd (fetchWithRetry alwaysTimeout ''u'' 2) = backoffTrace ''u'' 2" using k(3) by simp
  then have tr: "snd (fetchWithRetry alwaysTimeout ''u'' 2) =
     [Request ''u'' 0 8000, Sleep 1000, Request ''u'' 1 8000, Sleep 2000, Request ''u'' 2 8000]"
    by (simp add: backoffTrace_def upt_rec[of 0] upt_rec[of 1] numeral_2_eq_2)
  have "isl (alwaysTimeout 0) \<and> isl (alwaysTimeout 1) \<and> isl (alwaysTimeout 2)"
    by (simp add: alwaysTimeout_def)
  then show ?thesis using fin last tr by (simp add: prod_eq_iff)
qed

section \<open>Normalisation does not throw\<close>

text \<open>
  C9. Normalisation does not throw past the adapter: for every provider identifier and
  every raw value (null, undefined and malformed ones included) \<^verbatim>\<open>normalizeArticle\<close>
  returns, and what it returns is either null, the signal for an unusable item, or an
  object of the shape of a normalised article. So mapping it over a batch returns a
  result for every item, whatever the items are.
\<close>

theorem normalizeArticle_never_throws:
  "(\<exists>v. normalizeArticle rd source raw = Inr v \<and> (v = JNull \<or> isNormalizedArticle v))
   \<and> (\<exists>vs. mapThrowing (\<lambda>j a. normalizeArticle (rds j) source a) i items = Inr vs
          \<and> length vs = length items)"
proof -
  have "\<And>j a. \<exists>v. normalizeArticle (rds j) source a = Inr v"
    using normalizeArticle_returns by blast
  then show ?thesis
    using normalizeArticle_returns mapThrowing_total[of "\<lambda>j a. normalizeArticle (rds j) source a"]
    by blast
qed

section \<open>Articles without a URL\<close>



end
